theory Spec2Isabelle
  imports Complex_Main
begin

section \<open>Exceptions\<close>

text \<open>
  The exceptions the modelled code can raise. A function of the source that can raise
  returns \<open>py_error + 'a\<close>, with \<open>Inl\<close> for the exception. An exception ends the run:
  nothing in the source catches one, except the missing file in \<open>load_previous_results\<close>.
  What a run had printed or written before it raised is not kept in the result.
\<close>

datatype py_error =
    IndexError
  | KeyError
  | TypeError
  | AttributeError
  | ValueError
  | ZeroDivisionError
  | RuntimeError
  | JSONDecodeError

definition bindE :: "py_error + 'a \<Rightarrow> ('a \<Rightarrow> py_error + 'b) \<Rightarrow> py_error + 'b" where
  "bindE m f = (case m of Inl e \<Rightarrow> Inl e | Inr x \<Rightarrow> f x)"

section \<open>models/st\_gat.py: the forward pass on tensor shapes\<close>

text \<open>
  The forward pass is modelled on the shapes of its tensors: a tensor is the list of its
  dimension sizes, and each library operation is the function from the shapes of its
  arguments to the shape of its result, raising where the library rejects the shapes. The
  numbers held by the tensors play no part in which shape comes out.
\<close>

type_synonym shape = "nat list"

definition numel :: "shape \<Rightarrow> nat" where
  "numel s = prod_list s"

text \<open>
  \<open>torch.reshape(x, target)\<close> and \<open>x.view(target)\<close>: at most one entry of the target is
  \<open>-1\<close> and is inferred from the number of elements, which the other entries must divide;
  with no \<open>-1\<close> the target must hold exactly the elements of \<open>x\<close>.
\<close>

definition torch_reshape :: "shape \<Rightarrow> int list \<Rightarrow> py_error + shape" where
  "torch_reshape s target =
     (if list_ex (\<lambda>d. d < - 1) target then Inl RuntimeError
      else case filter (\<lambda>d. d = - 1) target of
          [] \<Rightarrow>
            if prod_list (map nat target) = numel s then Inr (map nat target)
            else Inl RuntimeError
        | [_] \<Rightarrow>
            (let known = prod_list (map nat (filter (\<lambda>d. d \<noteq> - 1) target)) in
             if known = 0 \<or> numel s mod known \<noteq> 0 then Inl RuntimeError
             else Inr (map (\<lambda>d. if d = - 1 then numel s div known else nat d) target))
        | _ \<Rightarrow> Inl RuntimeError)"

text \<open>\<open>x.mean(dim=d)\<close> removes dimension \<open>d\<close>.\<close>

definition torch_mean :: "shape \<Rightarrow> nat \<Rightarrow> py_error + shape" where
  "torch_mean s d = (if d < length s then Inr (take d s @ drop (Suc d) s) else Inl IndexError)"

text \<open>\<open>torch.movedim(x, src, dst)\<close> takes dimension \<open>src\<close> out and puts it at position \<open>dst\<close>.\<close>

definition torch_movedim :: "shape \<Rightarrow> nat \<Rightarrow> nat \<Rightarrow> py_error + shape" where
  "torch_movedim s src dst =
     (if src < length s \<and> dst < length s
      then (let rest = take src s @ drop (Suc src) s
            in Inr (take dst rest @ [s ! src] @ drop dst rest))
      else Inl IndexError)"

text \<open>
  \<open>x[-1, :, :]\<close>: three indices need three dimensions, and the last entry of an empty
  leading dimension does not exist.
\<close>

definition select_last_step :: "shape \<Rightarrow> py_error + shape" where
  "select_last_step s =
     (if length s < 3 then Inl IndexError
      else if s ! 0 = 0 then Inl IndexError
      else Inr (tl s))"

text \<open>\<open>torch.squeeze(x)\<close> drops every dimension of size one.\<close>

definition torch_squeeze :: "shape \<Rightarrow> shape" where
  "torch_squeeze s = filter (\<lambda>d. d \<noteq> 1) s"

text \<open>\<open>torch.nn.Linear\<close> maps the last dimension from \<open>in_features\<close> to \<open>out_features\<close>.\<close>

record Linear =
  in_features :: nat
  out_features :: nat

definition Linear_forward :: "Linear \<Rightarrow> shape \<Rightarrow> py_error + shape" where
  "Linear_forward l s =
     (if s \<noteq> [] \<and> last s = in_features l then Inr (butlast s @ [out_features l])
      else Inl RuntimeError)"

text \<open>
  \<open>torch.nn.LSTM\<close> with one layer and \<open>batch_first\<close> unset: the input is
  (sequence, batch, \<open>input_size\<close>) or, unbatched, (sequence, \<open>input_size\<close>); the output
  sequence has \<open>hidden_size\<close> in place of \<open>input_size\<close>.
\<close>

record LSTM =
  input_size :: nat
  hidden_size :: nat

definition LSTM_forward :: "LSTM \<Rightarrow> shape \<Rightarrow> py_error + shape" where
  "LSTM_forward l s =
     (case s of
        [len, b, i] \<Rightarrow> if i = input_size l then Inr [len, b, hidden_size l] else Inl RuntimeError
      | [len, i] \<Rightarrow> if i = input_size l then Inr [len, hidden_size l] else Inl RuntimeError
      | _ \<Rightarrow> Inl RuntimeError)"

text \<open>
  A (batched) DGL graph, as far as the forward pass reads it: its node and edge counts,
  its \<open>batch_size\<close> attribute (\<open>None\<close> when the object has none) and the shape of
  \<open>ndata["feat"]\<close>.
\<close>

record dgl_graph =
  num_nodes :: nat
  num_edges :: nat
  batch_size :: "nat option"
  feat :: shape

text \<open>
  The library layer \<open>dgl.nn.GATConv(in_feats, out_feats, num_heads)\<close> called with
  \<open>get_attention=True\<close>: from node features (nodes, \<open>in_feats\<close>) it returns
  (nodes, heads, \<open>out_feats\<close>) and the attention weights (edges, heads, 1). The library
  refuses a graph with a node that has no incoming edge; the graphs here are taken to
  have none.
\<close>

record GATConv =
  in_feats :: nat
  out_feats :: nat
  gat_heads :: nat

definition GATConv_forward :: "GATConv \<Rightarrow> dgl_graph \<Rightarrow> shape \<Rightarrow> py_error + shape \<times> shape" where
  "GATConv_forward c g x =
     (if x = [num_nodes g, in_feats c]
      then Inr ([num_nodes g, gat_heads c, out_feats c], [num_edges g, gat_heads c, 1])
      else Inl RuntimeError)"

record AveragedGATConv =
  num_heads :: nat
  gatconv :: GATConv

definition AveragedGATConv_init :: "nat \<Rightarrow> nat \<Rightarrow> nat \<Rightarrow> AveragedGATConv" where
  "AveragedGATConv_init in_f out_f n_heads =
     \<lparr> num_heads = n_heads,
       gatconv = \<lparr> in_feats = in_f, out_feats = out_f, gat_heads = n_heads \<rparr> \<rparr>"

definition AveragedGATConv_forward ::
  "AveragedGATConv \<Rightarrow> dgl_graph \<Rightarrow> shape \<Rightarrow> py_error + shape \<times> shape" where
  "AveragedGATConv_forward m g x =
     bindE (GATConv_forward (gatconv m) g x) (\<lambda>(h, attn).
     bindE (torch_reshape h [int (h ! 0), int (num_heads m), - 1]) (\<lambda>h.
     bindE (torch_mean h 1) (\<lambda>h.
     Inr (h, attn))))"

definition NUM_HEADS :: nat where
  "NUM_HEADS = 8"

record ST_GAT =
  n_pred :: nat
  heads :: nat
  n_nodes :: nat
  gat :: AveragedGATConv
  lstm1 :: LSTM
  lstm2 :: LSTM
  linear :: Linear

definition ST_GAT_init :: "nat \<Rightarrow> nat \<Rightarrow> nat \<Rightarrow> nat \<Rightarrow> ST_GAT" where
  "ST_GAT_init in_channels out_channels n_nodes_arg heads_arg =
     (let lstm1_hidden_size = 32; lstm2_hidden_size = 128 in
      \<lparr> n_pred = out_channels,
        heads = heads_arg,
        n_nodes = n_nodes_arg,
        gat = AveragedGATConv_init in_channels in_channels heads_arg,
        lstm1 = \<lparr> input_size = n_nodes_arg, hidden_size = lstm1_hidden_size \<rparr>,
        lstm2 = \<lparr> input_size = lstm1_hidden_size, hidden_size = lstm2_hidden_size \<rparr>,
        linear = \<lparr> in_features = lstm2_hidden_size,
                   out_features = n_nodes_arg * out_channels \<rparr> \<rparr>)"

text \<open>
  \<open>ST_GAT.forward\<close>. Copying the features to the device and the dropout keep the shape
  and do not appear. The result is the pair of the predictions and the attention weights.
\<close>

definition ST_GAT_forward :: "ST_GAT \<Rightarrow> dgl_graph \<Rightarrow> py_error + shape \<times> shape" where
  "ST_GAT_forward m graph =
     (let x = feat graph in
      bindE (AveragedGATConv_forward (gat m) graph x) (\<lambda>(x, attn).
      let bsz = (case batch_size graph of Some b \<Rightarrow> b | None \<Rightarrow> 1);
          n_node = n_nodes m
      in
      bindE (torch_reshape x [int bsz, int n_node, - 1]) (\<lambda>x.
      bindE (torch_movedim x 2 0) (\<lambda>x.
      bindE (LSTM_forward (lstm1 m) x) (\<lambda>x.
      bindE (LSTM_forward (lstm2 m) x) (\<lambda>x.
      bindE (select_last_step x) (\<lambda>x.
      let x = torch_squeeze x in
      bindE (Linear_forward (linear m) x) (\<lambda>x.
      bindE (torch_reshape x [int bsz, int (n_nodes m), int (n_pred m)]) (\<lambda>x.
      bindE (torch_reshape x [int (bsz * n_nodes m), int (n_pred m)]) (\<lambda>x.
      Inr (x, attn)))))))))))"

section \<open>Python values\<close>

text \<open>
  The values that hyperparameters, configuration entries and decoded JSON take. A float is
  held as the rational number it is equal to (every finite double is one); a dictionary is
  the list of its items in insertion order, with distinct keys.
\<close>

datatype pyval =
    PyNone
  | PyBool bool
  | PyInt int
  | PyFloat rat
  | PyStr string
  | PyList "pyval list"
  | PyDict "(string \<times> pyval) list"

type_synonym pydict = "(string \<times> pyval) list"

text \<open>
  Python's \<open>==\<close> on scalar values: numbers of different types are equal when their values
  are, and \<open>True\<close> and \<open>False\<close> count as the integers 1 and 0.
\<close>

fun py_eq :: "pyval \<Rightarrow> pyval \<Rightarrow> bool" where
  "py_eq (PyInt a) (PyFloat b) = (of_int a = b)"
| "py_eq (PyFloat a) (PyInt b) = (a = of_int b)"
| "py_eq (PyBool a) (PyInt b) = ((if a then 1 else 0) = b)"
| "py_eq (PyInt a) (PyBool b) = (a = (if b then 1 else 0))"
| "py_eq (PyBool a) (PyFloat b) = ((if a then 1 else 0) = b)"
| "py_eq (PyFloat a) (PyBool b) = (a = (if b then 1 else 0))"
| "py_eq a b = (a = b)"

text \<open>\<open>xs[i]\<close> on a list: a negative index counts from the end.\<close>

definition py_getitem :: "'a list \<Rightarrow> int \<Rightarrow> py_error + 'a" where
  "py_getitem xs i =
     (let j = (if i < 0 then i + int (length xs) else i) in
      if j < 0 \<or> int (length xs) \<le> j then Inl IndexError else Inr (xs ! nat j))"

text \<open>\<open>d[k]\<close> and \<open>d[k] = v\<close> on a dictionary.\<close>

definition py_lookup :: "(string \<times> 'v) list \<Rightarrow> string \<Rightarrow> py_error + 'v" where
  "py_lookup d k = (case map_of d k of None \<Rightarrow> Inl KeyError | Some v \<Rightarrow> Inr v)"

definition dict_set :: "(string \<times> 'v) list \<Rightarrow> string \<Rightarrow> 'v \<Rightarrow> (string \<times> 'v) list" where
  "dict_set d k v =
     (if k \<in> set (map fst d) then map (\<lambda>(k', v'). if k' = k then (k', v) else (k', v')) d
      else d @ [(k, v)])"

text \<open>\<open>range(start, stop)\<close>.\<close>

definition py_range_from :: "int \<Rightarrow> int \<Rightarrow> int list" where
  "py_range_from start stop = map (\<lambda>i. start + int i) [0 ..< nat (stop - start)]"

text \<open>A list comprehension \<open>[f(x) for x in xs]\<close> whose element expression may raise.\<close>

fun collect :: "('a \<Rightarrow> py_error + 'b) \<Rightarrow> 'a list \<Rightarrow> py_error + 'b list" where
  "collect f [] = Inr []"
| "collect f (x # xs) = bindE (f x) (\<lambda>y. bindE (collect f xs) (\<lambda>ys. Inr (y # ys)))"

text \<open>\<open>itertools.product\<close> of a list of lists: the last position varies fastest.\<close>

fun itertools_product :: "'a list list \<Rightarrow> 'a list list" where
  "itertools_product [] = [[]]"
| "itertools_product (xs # xss) = concat (map (\<lambda>x. map ((#) x) (itertools_product xss)) xs)"

section \<open>visualizations/predictions.py: the plotted window\<close>

text \<open>
  Python's \<open>a // b\<close> on integers: floor division, \<open>ZeroDivisionError\<close> when \<open>b = 0\<close>.
  HOL's \<open>div\<close> on \<open>int\<close> rounds towards minus infinity like Python's.
\<close>

definition py_floordiv :: "int \<Rightarrow> int \<Rightarrow> py_error + int" where
  "py_floordiv a b = (if b = 0 then Inl ZeroDivisionError else Inr (a div b))"

text \<open>Python's \<open>xs[:stop]\<close>: a negative \<open>stop\<close> counts from the end, and nothing is raised.\<close>

definition py_slice_to :: "'a list \<Rightarrow> int \<Rightarrow> 'a list" where
  "py_slice_to xs stop =
     (if 0 \<le> stop then take (nat stop) xs else take (nat (int (length xs) + stop)) xs)"

text \<open>\<open>range(0, stop)\<close> and \<open>np.arange(stop)\<close> for an integer \<open>stop\<close>: empty when \<open>stop \<le> 0\<close>.\<close>

definition py_range :: "int \<Rightarrow> int list" where
  "py_range stop = map int [0 ..< nat stop]"

text \<open>
  The plotting libraries, as far as they can refuse their arguments: \<open>plt.plot(x, y)\<close>
  needs as many values as points, \<open>np.linspace(start, stop, num)\<close> needs a number of
  samples that is not negative, and \<open>interp1d(x, y, kind='cubic')\<close> needs as many values as
  points and at least four points. Of the samples of \<open>np.linspace\<close> only their number is
  kept. The samples lie between the first and the last point, so evaluating the
  interpolant at them raises nothing, and it gives as many values as samples.
\<close>

definition plt_plot :: "'a list \<Rightarrow> 'b list \<Rightarrow> py_error + unit" where
  "plt_plot x y = (if length x = length y then Inr () else Inl ValueError)"

definition np_linspace :: "int \<Rightarrow> py_error + nat" where
  "np_linspace num = (if num < 0 then Inl ValueError else Inr (nat num))"

definition interp1d_cubic :: "'a list \<Rightarrow> 'b list \<Rightarrow> py_error + unit" where
  "interp1d_cubic x y = (if length x = length y \<and> 4 \<le> length x then Inr () else Inl ValueError)"

text \<open>
  What the plotting functions draw: the time axis \<open>t\<close>, the truth series, the prediction
  series, the day count of the title, and the number of points of each curve handed to
  \<open>plt.plot\<close>, in the order of the calls. \<open>plot_prediction\<close> plots the series themselves
  against \<open>t\<close>; \<open>plot_prediction_full\<close> plots their cubic interpolants at the samples of
  \<open>np.linspace\<close>. The arguments \<open>y_truth\<close> and \<open>y_pred\<close> are the
  one-dimensional tensors that lines 9 to 22 obtain by \<open>torch.flatten\<close>, \<open>y_preds\<close> is
  the list of them built at line 64, one for each step of the horizon;
  \<open>slots_per_day\<close> is \<open>config["SLOTS_PER_DAY"]\<close>; \<open>num_days\<close> is \<open>None\<close> or an integer.
  Writing the figure to its file is left to the library.
\<close>

record 'a plot_data =
  t_axis :: "int list"
  truth_series :: "'a list"
  pred_series :: "'a list list"
  days_shown :: int
  curve_points :: "nat list"

text \<open>Lines 29 and 30, and the same at lines 71 and 72.\<close>

definition days_to_show :: "int option \<Rightarrow> int \<Rightarrow> int" where
  "days_to_show num_days total_days =
     (case num_days of
        None \<Rightarrow> total_days
      | Some d \<Rightarrow> if d > total_days then total_days else d)"

text \<open>\<open>plot_prediction\<close>, lines 24 to 40.\<close>

definition plot_prediction :: "int \<Rightarrow> 'a list \<Rightarrow> 'a list \<Rightarrow> int option \<Rightarrow> py_error + 'a plot_data" where
  "plot_prediction slots_per_day y_truth y_pred num_days =
     (let total_slots = int (length y_truth) in
      bindE (py_floordiv total_slots slots_per_day) (\<lambda>total_days.
        let num_days' = days_to_show num_days total_days;
            end_idx = num_days' * slots_per_day;
            y_truth' = py_slice_to y_truth end_idx;
            y_pred' = py_slice_to y_pred end_idx;
            t = py_range end_idx
        in
        bindE (plt_plot t y_truth') (\<lambda>_.
        bindE (plt_plot t y_pred') (\<lambda>_.
        Inr \<lparr> t_axis = t, truth_series = y_truth', pred_series = [y_pred'],
              days_shown = num_days', curve_points = [length t, length t] \<rparr>))))"

text \<open>
  Lines 93 to 100, the body of the loop over \<open>range(9)\<close>: the prediction of step \<open>i\<close> is
  drawn against the time axis without its first \<open>i\<close> points, when more than one point is
  left. The result is the series drawn, if any, with the number of points of its curve.
\<close>

definition shifted_prediction ::
  "int \<Rightarrow> int list \<Rightarrow> 'a list list \<Rightarrow> nat \<Rightarrow> py_error + ('a list \<times> nat) list" where
  "shifted_prediction fine_grained_factor t y_preds i =
     (let shifted_t = drop i t in
      bindE (py_getitem y_preds (int i)) (\<lambda>y.
      let shifted_y = py_slice_to y (int (length shifted_t)) in
      if 1 < length shifted_t
      then bindE (interp1d_cubic shifted_t shifted_y) (\<lambda>_.
           bindE (np_linspace (int (length shifted_t) * fine_grained_factor)) (\<lambda>t_fine_shifted.
           Inr [(shifted_y, t_fine_shifted)]))
      else Inr []))"

text \<open>\<open>plot_prediction_full\<close>, lines 66 to 100.\<close>

definition plot_prediction_full ::
  "int \<Rightarrow> int \<Rightarrow> 'a list \<Rightarrow> 'a list list \<Rightarrow> int option \<Rightarrow> py_error + 'a plot_data" where
  "plot_prediction_full slots_per_day fine_grained_factor y_truth y_preds num_days =
     (let total_slots = int (length y_truth) in
      bindE (py_floordiv total_slots slots_per_day) (\<lambda>total_days.
        let num_days' = days_to_show num_days total_days;
            end_idx = num_days' * slots_per_day;
            y_truth' = py_slice_to y_truth end_idx;
            y_preds' = map (\<lambda>y. py_slice_to y end_idx) y_preds;
            t = py_range end_idx
        in
        bindE (np_linspace (end_idx * fine_grained_factor)) (\<lambda>t_fine.
        bindE (interp1d_cubic t y_truth') (\<lambda>_.
        bindE (collect (shifted_prediction fine_grained_factor t y_preds') [0 ..< 9]) (\<lambda>drawn.
        Inr \<lparr> t_axis = t, truth_series = y_truth', pred_series = map fst (concat drawn),
              days_shown = num_days', curve_points = t_fine # map snd (concat drawn) \<rparr>)))))"

text \<open>The index \<open>end_idx\<close> of lines 33 and 75, as a function of the inputs.\<close>

definition end_idx_of :: "int \<Rightarrow> 'a list \<Rightarrow> int option \<Rightarrow> int" where
  "end_idx_of slots_per_day y_truth num_days =
     days_to_show num_days (int (length y_truth) div slots_per_day) * slots_per_day"

text \<open>The number of days the claim names: all full days, or the request clamped to them.\<close>

definition plotted_days :: "int option \<Rightarrow> int \<Rightarrow> int" where
  "plotted_days num_days total_days =
     (case num_days of None \<Rightarrow> total_days | Some d \<Rightarrow> min d total_days)"

definition window_length :: "'a plot_data \<Rightarrow> int \<Rightarrow> bool" where
  "window_length pd n \<longleftrightarrow>
     int (length (t_axis pd)) = n \<and> int (length (truth_series pd)) = n \<and>
     list_all (\<lambda>y. int (length y) = n) (pred_series pd)"

text \<open>
  A test set of 50 slots at 24 slots a day with nine horizon steps, and what
  \<open>plot_prediction_full\<close> draws of it when five days are asked for.
\<close>

definition demo_truth :: "int list" where
  "demo_truth = replicate 50 0"

definition demo_preds :: "int list list" where
  "demo_preds = replicate 9 (replicate 50 1)"

definition demo_full_plot :: "int plot_data" where
  "demo_full_plot =
     \<lparr> t_axis = py_range 48,
       truth_series = replicate 48 0,
       pred_series = [replicate 48 1, replicate 47 1, replicate 46 1, replicate 45 1,
                      replicate 44 1, replicate 43 1, replicate 42 1, replicate 41 1,
                      replicate 40 1],
       days_shown = 2,
       curve_points = [480, 480, 470, 460, 450, 440, 430, 420, 410, 400] \<rparr>"

section \<open>Double-precision arithmetic\<close>

text \<open>
  A double has a significand of 53 bits. \<open>round_to_double\<close> takes a rational number to
  the nearest such number, ties to the even significand, as IEEE 754 arithmetic and
  Python's reading of a decimal literal do. The exponent range is not bounded: the values
  met here, learning rates and products of a ratio with a \<open>len\<close>, are far from overflow
  and from the subnormal range.
\<close>

function bit_length :: "int \<Rightarrow> nat" where
  "bit_length n = (if n \<le> 0 then 0 else Suc (bit_length (n div 2)))"
  by pat_completeness auto
termination
  by (relation "measure nat") auto

declare bit_length.simps [simp del]

text \<open>The fraction \<open>p / q\<close> divided by \<open>2 ^ e\<close>, as a numerator and a denominator.\<close>

definition scaled_fraction :: "int \<Rightarrow> int \<Rightarrow> int \<Rightarrow> int \<times> int" where
  "scaled_fraction p q e = (if 0 \<le> e then (p, q * 2 ^ nat e) else (p * 2 ^ nat (- e), q))"

text \<open>The integer nearest to \<open>n / d\<close> for positive \<open>d\<close>, a tie going to the even one.\<close>

definition round_half_even :: "int \<Rightarrow> int \<Rightarrow> int" where
  "round_half_even n d =
     (let f = n div d; r = n mod d in
      if d < 2 * r \<or> (2 * r = d \<and> odd f) then f + 1 else f)"

text \<open>The integer \<open>e\<close> with \<open>2 ^ e \<le> p / q < 2 ^ (e + 1)\<close>, for positive \<open>p\<close> and \<open>q\<close>.\<close>

definition binary_exponent :: "int \<Rightarrow> int \<Rightarrow> int" where
  "binary_exponent p q =
     (let d = int (bit_length p) - int (bit_length q);
          (n, m) = scaled_fraction p q d
      in if m \<le> n then d else d - 1)"

definition round_to_double :: "rat \<Rightarrow> rat" where
  "round_to_double x =
     (if x = 0 then 0
      else let (p, q) = quotient_of \<bar>x\<bar>;
               e = binary_exponent p q - 52;
               (n, d) = scaled_fraction p q e;
               m = round_half_even n d
           in sgn x * (if 0 \<le> e then of_int (m * 2 ^ nat e)
                       else of_int m / of_int (2 ^ nat (- e))))"

text \<open>A decimal literal such as \<open>0.7\<close> or \<open>1e-4\<close> denotes the double nearest to it.\<close>

definition float_literal :: "rat \<Rightarrow> rat" where
  "float_literal x = round_to_double x"

definition float_of_int :: "int \<Rightarrow> rat" where
  "float_of_int n = round_to_double (of_int n)"

definition float_mul :: "rat \<Rightarrow> rat \<Rightarrow> rat" where
  "float_mul a b = round_to_double (a * b)"

definition float_add :: "rat \<Rightarrow> rat \<Rightarrow> rat" where
  "float_add a b = round_to_double (a + b)"

text \<open>\<open>int(x)\<close> on a float truncates towards zero.\<close>

definition int_of_float :: "rat \<Rightarrow> int" where
  "int_of_float x = (if 0 \<le> x then \<lfloor>x\<rfloor> else \<lceil>x\<rceil>)"

text \<open>\<open>a * v\<close> for a float \<open>a\<close> and a Python value \<open>v\<close>: only numbers can be multiplied.\<close>

definition py_float_times :: "rat \<Rightarrow> pyval \<Rightarrow> py_error + rat" where
  "py_float_times a v =
     (case v of
        PyFloat b \<Rightarrow> Inr (float_mul a b)
      | PyInt n \<Rightarrow> Inr (float_mul a (float_of_int n))
      | PyBool b \<Rightarrow> Inr (float_mul a (float_of_int (if b then 1 else 0)))
      | _ \<Rightarrow> Inl TypeError)"

text \<open>\<open>a / n\<close> for a float \<open>a\<close> and an integer \<open>n\<close>.\<close>

definition float_div_int :: "rat \<Rightarrow> int \<Rightarrow> py_error + rat" where
  "float_div_int a n =
     (if n = 0 then Inl ZeroDivisionError else Inr (round_to_double (a / float_of_int n)))"

section \<open>models/hyperparameter\_search.py: the grid-search driver\<close>

text \<open>
  The driver acts on the results file, the standard output and, through the trainer, on
  the gradient mode. The file \<open>results.json\<close> is held as the value that \<open>json.load\<close>
  returns for it: \<open>json.dump\<close> followed by \<open>json.load\<close> gives back the dictionaries,
  lists, strings and numbers written here. What is printed and what is asked of the
  trainer are recorded in order as events; a trainer call carries the gradient mode
  it runs under.
\<close>

datatype file_content = Absent | Json pyval | Unparsable

datatype event =
    Print_testing pydict
  | Print_regenerating
  | Print_size_error
  | Print_fold nat nat rat nat rat
  | Print_achieved pyval nat nat
  | Call_train nat bool
  | Call_eval nat bool

record world =
  results_file :: file_content
  events :: "event list"
  grad_enabled :: bool

definition emit :: "event \<Rightarrow> world \<Rightarrow> world" where
  "emit e w = w\<lparr> events := events w @ [e] \<rparr>"

text \<open>
  The collaborators the driver calls, by what they give back: the dataset loader (the
  list of graphs with the normalisation mean and deviation), the validation error that
  \<open>models.trainer.eval\<close> reports in a given epoch, and the text of \<open>datetime.now()\<close>.
\<close>

record collaborators =
  get_processed_dataset :: "pydict \<Rightarrow> dgl_graph list \<times> pyval \<times> pyval"
  eval_mae :: "nat \<Rightarrow> rat"
  now :: string

definition load_previous_results :: "world \<Rightarrow> py_error + pyval" where
  "load_previous_results w =
     (case results_file w of
        Absent \<Rightarrow> Inr (PyDict [(''Results'', PyList [])])
      | Json v \<Rightarrow> Inr v
      | Unparsable \<Rightarrow> Inl JSONDecodeError)"

text \<open>\<open>data["Results"].append(new_data)\<close>, on whatever \<open>data\<close> was loaded.\<close>

definition results_append :: "pyval \<Rightarrow> pyval \<Rightarrow> py_error + pyval" where
  "results_append data new_data =
     (case data of
        PyDict d \<Rightarrow>
          (case map_of d ''Results'' of
             None \<Rightarrow> Inl KeyError
           | Some (PyList rs) \<Rightarrow> Inr (PyDict (dict_set d ''Results'' (PyList (rs @ [new_data]))))
           | Some _ \<Rightarrow> Inl AttributeError)
      | _ \<Rightarrow> Inl TypeError)"

definition result_record :: "pydict \<Rightarrow> rat \<Rightarrow> pyval \<Rightarrow> string \<Rightarrow> pyval" where
  "result_record current_params train_ratio val_mae time =
     PyDict [(''params'', PyDict current_params),
             (''train_percent'', PyFloat train_ratio),
             (''mae'', val_mae),
             (''completion_time'', PyStr time)]"

text \<open>Lines 143 to 153: read the file, append the record in memory, write the whole back.\<close>

definition write_result :: "pydict \<Rightarrow> rat \<Rightarrow> pyval \<Rightarrow> string \<Rightarrow> world \<Rightarrow> py_error + world" where
  "write_result current_params train_ratio val_mae time w =
     bindE (load_previous_results w) (\<lambda>data.
     bindE (results_append data (result_record current_params train_ratio val_mae time)) (\<lambda>data.
     Inr (w\<lparr> results_file := Json data \<rparr>)))"

text \<open>Lines 107 to 117: the epoch budget of a learning rate.\<close>

definition epoch_budget :: "pyval \<Rightarrow> py_error + nat" where
  "epoch_budget lr =
     (if py_eq lr (PyFloat (float_literal (1 / 10 ^ 4))) then Inr 100
      else if py_eq lr (PyFloat (float_literal (5 / 10 ^ 4))) then Inr 80
      else if py_eq lr (PyFloat (float_literal (1 / 10 ^ 3))) then Inr 70
      else if py_eq lr (PyFloat (float_literal (5 / 10 ^ 3))) then Inr 50
      else Inl RuntimeError)"

text \<open>Lines 121 to 127: one epoch, and the loop over \<open>range(epochs)\<close>.\<close>

definition epoch_body :: "collaborators \<Rightarrow> nat \<Rightarrow> world \<times> pyval \<Rightarrow> nat \<Rightarrow> world \<times> pyval" where
  "epoch_body env epochs s epoch =
     (let (w, val_mae) = s;
          w = emit (Call_train epoch (grad_enabled w)) w
      in if epoch mod 5 = 0 \<or> int epoch = int epochs - 1
         then (let saved = grad_enabled w;
                   w = w\<lparr> grad_enabled := False \<rparr>;
                   w = emit (Call_eval epoch (grad_enabled w)) w;
                   val_mae = PyFloat (eval_mae env epoch);
                   w = w\<lparr> grad_enabled := saved \<rparr>
               in (w, val_mae))
         else (w, val_mae))"

definition run_epochs :: "collaborators \<Rightarrow> nat \<Rightarrow> world \<times> pyval \<Rightarrow> world \<times> pyval" where
  "run_epochs env epochs s = foldl (epoch_body env epochs) s [0 ..< epochs]"

text \<open>The local variables that live across the iterations of the hyperparameter loop.\<close>

record search_state =
  config :: pydict
  prev_npred :: pyval
  prev_nhist :: pyval
  dataset :: "dgl_graph list option"
  num_graphs :: "nat option"

definition val_ratio :: rat where
  "val_ratio = float_literal (1 / 10)"

text \<open>Lines 81 and 82: \<open>int(ratio * num_graphs)\<close>.\<close>

definition split_size :: "rat \<Rightarrow> nat \<Rightarrow> int" where
  "split_size ratio n = int_of_float (float_mul ratio (float_of_int (int n)))"

text \<open>
  Lines 88 to 153: the fold once its sizes are accepted. The model, the optimizer and the
  data loaders are built by the libraries from the values looked up here. The pair carried
  along is the running weighted error and the world.
\<close>

definition fold_train ::
  "collaborators \<Rightarrow> search_state \<Rightarrow> pydict \<Rightarrow> nat \<Rightarrow> rat \<Rightarrow> int \<Rightarrow> int \<Rightarrow> rat \<times> world
     \<Rightarrow> py_error + rat \<times> world" where
  "fold_train env st current_params fold_no train_ratio train_size val_size s =
     (let (weighted_average_mae, w) = s in
      case dataset st of
        None \<Rightarrow> Inl TypeError
      | Some ds \<Rightarrow>
      bindE (collect (py_getitem ds) (py_range train_size)) (\<lambda>train_subset.
      bindE (collect (py_getitem ds) (py_range_from train_size (train_size + val_size)))
        (\<lambda>val_subset.
      bindE (py_lookup (config st) ''BATCH_SIZE'') (\<lambda>_.
      let w = emit (Print_fold fold_no (length train_subset) train_ratio
                      (length val_subset) val_ratio) w in
      bindE (py_lookup current_params ''N_HIST'') (\<lambda>_.
      bindE (py_lookup current_params ''N_PRED'') (\<lambda>_.
      bindE (py_lookup (config st) ''N_NODE'') (\<lambda>_.
      bindE (py_lookup current_params ''DROPOUT'') (\<lambda>_.
      bindE (py_lookup current_params ''INITIAL_LR'') (\<lambda>lr.
      bindE (py_lookup current_params ''WEIGHT_DECAY'') (\<lambda>_.
      bindE (epoch_budget lr) (\<lambda>epochs.
      let (w, val_mae) = run_epochs env epochs (w, PyNone);
          w = emit (Print_achieved val_mae epochs fold_no) w in
      bindE (py_float_times train_ratio val_mae) (\<lambda>weighted.
      let weighted_average_mae = float_add weighted_average_mae weighted in
      bindE (write_result current_params train_ratio val_mae (now env) w) (\<lambda>w.
      Inr (weighted_average_mae, w))))))))))))))"

datatype loop_control = Continue | Break

text \<open>Lines 81 to 86 and the rest of the fold: the size check guards everything else.\<close>

definition fold_body ::
  "collaborators \<Rightarrow> search_state \<Rightarrow> pydict \<Rightarrow> nat \<times> rat \<Rightarrow> rat \<times> world
     \<Rightarrow> py_error + (rat \<times> world) \<times> loop_control" where
  "fold_body env st current_params item s =
     (let (fold_no, train_ratio) = item in
      case num_graphs st of
        None \<Rightarrow> Inl TypeError
      | Some n \<Rightarrow>
          (let train_size = split_size train_ratio n;
               val_size = split_size val_ratio n
           in if train_size + val_size > int n
              then Inr ((fst s, emit Print_size_error (snd s)), Break)
              else bindE (fold_train env st current_params fold_no train_ratio train_size val_size s)
                     (\<lambda>s. Inr (s, Continue))))"

fun fold_loop ::
  "collaborators \<Rightarrow> search_state \<Rightarrow> pydict \<Rightarrow> (nat \<times> rat) list \<Rightarrow> rat \<times> world
     \<Rightarrow> py_error + rat \<times> world" where
  "fold_loop env st current_params [] s = Inr s"
| "fold_loop env st current_params (item # items) s =
     bindE (fold_body env st current_params item s) (\<lambda>(s, ctl).
       case ctl of Break \<Rightarrow> Inr s | Continue \<Rightarrow> fold_loop env st current_params items s)"

text \<open>Lines 68 to 76: the dataset is rebuilt when either window length differs.\<close>

definition rebuild_dataset ::
  "collaborators \<Rightarrow> pyval \<Rightarrow> pyval \<Rightarrow> search_state \<times> world \<Rightarrow> py_error + search_state \<times> world" where
  "rebuild_dataset env n_pred_v n_hist_v s =
     (let (st, w) = s;
          cfg = dict_set (dict_set (config st) ''N_PRED'' n_pred_v) ''N_HIST'' n_hist_v;
          w = emit Print_regenerating w;
          (ds, mean, dev) = get_processed_dataset env cfg;
          cfg = dict_set (dict_set cfg ''D_MEAN'' mean) ''D_STD_DEV'' dev
      in bindE (py_getitem ds 0) (\<lambda>g0.
           Inr (\<lparr> config = dict_set cfg ''N_NODE'' (PyInt (int (num_nodes g0))),
                  prev_npred = n_pred_v, prev_nhist = n_hist_v,
                  dataset = Some ds, num_graphs = Some (length ds) \<rparr>, w)))"

text \<open>
  Lines 64 to 156: one hyperparameter combination. The test of line 68 reads \<open>N_PRED\<close>
  and, unless that already differs, \<open>N_HIST\<close>; lines 69 and 70 read both. A missing key
  raises \<open>KeyError\<close> on either path, so both are read first here.
\<close>

definition param_body ::
  "collaborators \<Rightarrow> string list \<Rightarrow> rat list \<Rightarrow> pyval list \<Rightarrow> search_state \<times> world
     \<Rightarrow> py_error + search_state \<times> world" where
  "param_body env keys train_ratios param_set s =
     (let (st, w) = s;
          current_params = zip keys param_set;
          w = emit (Print_testing current_params) w
      in
      bindE (py_lookup current_params ''N_PRED'') (\<lambda>n_pred_v.
      bindE (py_lookup current_params ''N_HIST'') (\<lambda>n_hist_v.
      bindE (if \<not> py_eq n_pred_v (prev_npred st) \<or> \<not> py_eq n_hist_v (prev_nhist st)
             then rebuild_dataset env n_pred_v n_hist_v (st, w) else Inr (st, w)) (\<lambda>(st, w).
      let weighted_average_mae = 0 in
      bindE (fold_loop env st current_params (enumerate 0 train_ratios) (weighted_average_mae, w))
        (\<lambda>(weighted_average_mae, w).
      bindE (float_div_int weighted_average_mae (int (length train_ratios))) (\<lambda>_.
      Inr (st, w)))))))"

fun param_loop ::
  "collaborators \<Rightarrow> string list \<Rightarrow> rat list \<Rightarrow> pyval list list \<Rightarrow> search_state \<times> world
     \<Rightarrow> py_error + search_state \<times> world" where
  "param_loop env keys train_ratios [] s = Inr s"
| "param_loop env keys train_ratios (param_set # rest) s =
     bindE (param_body env keys train_ratios param_set s) (param_loop env keys train_ratios rest)"

text \<open>
  \<open>train_expanding_window_grid_search(config, param_grid, device, param_index, fold_index)\<close>.
  The device is only handed on to the libraries. The result is the final world with the
  returned triple \<open>(results, best_model, best_hyperparams)\<close>.
\<close>

definition train_expanding_window_grid_search ::
  "collaborators \<Rightarrow> pydict \<Rightarrow> (string \<times> pyval list) list \<Rightarrow> int \<Rightarrow> int \<Rightarrow> world
     \<Rightarrow> py_error + world \<times> (pyval \<times> pyval \<times> pyval)" where
  "train_expanding_window_grid_search env config_arg param_grid param_index fold_index w =
     (let train_ratios = [float_literal (7 / 10), float_literal (8 / 10), float_literal (9 / 10)];
          best_model = PyNone;
          best_hyperparams = PyNone;
          results = PyDict [];
          param_combinations = itertools_product (map snd param_grid)
      in
      bindE (py_getitem train_ratios fold_index) (\<lambda>r. let train_ratios = [r] in
      bindE (py_getitem param_combinations param_index) (\<lambda>c. let param_combinations = [c] in
      bindE (param_loop env (map fst param_grid) train_ratios param_combinations
               (\<lparr> config = config_arg, prev_npred = PyNone, prev_nhist = PyNone,
                   dataset = None, num_graphs = None \<rparr>, w)) (\<lambda>(st, w).
      Inr (w, (results, best_model, best_hyperparams))))))"

section \<open>run.py: train or load\<close>

text \<open>
  The flags and the configuration set at the top of the script (lines 25 to 41), and what
  the script does from line 54 on, as the list of its steps. \<open>path_exists\<close> is
  \<open>os.path.exists\<close>, \<open>cfg\<close> is the configuration dictionary as it stands at line 54 and
  \<open>graphs\<close> is \<open>dataset.graphs\<close>.
\<close>

record run_flags =
  RETRAIN :: bool
  SAVE_MODEL :: bool
  SAVE_ATTENTION :: bool

definition script_flags :: run_flags where
  "script_flags = \<lparr> RETRAIN = True, SAVE_MODEL = True, SAVE_ATTENTION = False \<rparr>"

definition script_config :: "string \<Rightarrow> pyval \<Rightarrow> pyval \<Rightarrow> pydict" where
  "script_config runs_dir mean dev =
     dict_set (dict_set
       [(''BATCH_SIZE'', PyInt 50),
        (''EPOCHS'', PyInt 60),
        (''WEIGHT_DECAY'', PyFloat (float_literal (5 / 10 ^ 5))),
        (''INITIAL_LR'', PyFloat (float_literal (3 / 10 ^ 4))),
        (''CHECKPOINT_DIR'', PyStr runs_dir),
        (''N_PRED'', PyInt 9),
        (''N_HIST'', PyInt 12),
        (''DROPOUT'', PyFloat (float_literal (2 / 10))),
        (''USE_GAT_WEIGHTS'', PyBool True)]
       ''D_MEAN'' mean) ''D_STD_DEV'' dev"

datatype run_step =
    Load_model string
  | Load_attention string
  | Train_model
  | Save_attention string
  | Save_model string
  | Run_inference

definition run_script ::
  "(string \<Rightarrow> bool) \<Rightarrow> string \<Rightarrow> run_flags \<Rightarrow> pydict \<Rightarrow> dgl_graph list
     \<Rightarrow> py_error + run_step list" where
  "run_script path_exists model_dir flags cfg graphs =
     (let model_path = model_dir @ ''/model.pth'';
          attn_path = model_dir @ ''/attention.pth''
      in
      bindE
        (if path_exists model_path \<and> path_exists attn_path \<and> \<not> RETRAIN flags
         then
           bindE (py_lookup cfg ''N_HIST'') (\<lambda>_.
           bindE (py_lookup cfg ''N_PRED'') (\<lambda>_.
           bindE (py_lookup cfg ''N_NODE'') (\<lambda>_.
           bindE (py_lookup cfg ''DROPOUT'') (\<lambda>_.
           Inr [Load_model model_path, Load_attention attn_path]))))
         else
           bindE (py_lookup cfg ''BATCH_SIZE'') (\<lambda>_.
           bindE (py_getitem graphs 0) (\<lambda>_.
           Inr ([Train_model]
                @ (if SAVE_ATTENTION flags then [Save_attention attn_path] else [])
                @ (if SAVE_MODEL flags then [Save_model model_path] else [])))))
        (\<lambda>steps. Inr (steps @ [Run_inference])))"

section \<open>Observations on runs\<close>

text \<open>The epochs in which the trainer was asked to train, in order.\<close>

fun train_calls :: "event list \<Rightarrow> nat list" where
  "train_calls [] = []"
| "train_calls (Call_train e g # evs) = e # train_calls evs"
| "train_calls (_ # evs) = train_calls evs"

text \<open>The epochs in which it was asked to evaluate, each with the gradient mode of the call.\<close>

fun eval_calls :: "event list \<Rightarrow> (nat \<times> bool) list" where
  "eval_calls [] = []"
| "eval_calls (Call_eval e g # evs) = (e, g) # eval_calls evs"
| "eval_calls (_ # evs) = eval_calls evs"

text \<open>What a run added to the events that were there before it.\<close>

definition new_events :: "world \<Rightarrow> world \<Rightarrow> event list" where
  "new_events w w' = drop (length (events w)) (events w')"

text \<open>The events of the first \<open>n\<close> epochs of a loop of \<open>epochs\<close> epochs started in gradient mode \<open>g\<close>.\<close>

definition epoch_events :: "nat \<Rightarrow> bool \<Rightarrow> nat \<Rightarrow> event list" where
  "epoch_events epochs g n =
     concat (map (\<lambda>e. Call_train e g #
                        (if e mod 5 = 0 \<or> int e = int epochs - 1 then [Call_eval e False] else []))
                 [0 ..< n])"

text \<open>Fold results written one after the other, each by lines 143 to 153.\<close>

fun write_results :: "(pydict \<times> rat \<times> pyval \<times> string) list \<Rightarrow> world \<Rightarrow> py_error + world" where
  "write_results [] w = Inr w"
| "write_results ((params, train_ratio, val_mae, time) # rest) w =
     bindE (write_result params train_ratio val_mae time w) (write_results rest)"

definition record_of :: "pydict \<times> rat \<times> pyval \<times> string \<Rightarrow> pyval" where
  "record_of x = (case x of (params, train_ratio, val_mae, time) \<Rightarrow>
     result_record params train_ratio val_mae time)"

text \<open>The field names of a JSON object, in order.\<close>

definition field_names :: "pyval \<Rightarrow> string list" where
  "field_names v = (case v of PyDict d \<Rightarrow> map fst d | _ \<Rightarrow> [])"

section \<open>A small experiment\<close>

text \<open>
  Concrete inputs on which the driver is run: a dataset of ten graphs of four nodes, a
  trainer that reports the same validation error in every epoch, a grid with one value for
  each hyperparameter, and a world in which the results file does not exist yet.
\<close>

definition demo_graph :: dgl_graph where
  "demo_graph = \<lparr> num_nodes = 4, num_edges = 16, batch_size = Some 1, feat = [4, 12] \<rparr>"

definition demo_env :: collaborators where
  "demo_env =
     \<lparr> get_processed_dataset = (\<lambda>cfg. (replicate 10 demo_graph, PyFloat 0, PyFloat 1)),
       eval_mae = (\<lambda>epoch. 1 / 2),
       now = ''2025-03-01 12:00:00.000000'' \<rparr>"

definition demo_config :: pydict where
  "demo_config = [(''BATCH_SIZE'', PyInt 50)]"

definition demo_grid :: "(string \<times> pyval list) list" where
  "demo_grid =
     [(''N_PRED'', [PyInt 9]),
      (''N_HIST'', [PyInt 12]),
      (''DROPOUT'', [PyFloat (float_literal (2 / 10))]),
      (''INITIAL_LR'', [PyFloat (float_literal (5 / 10 ^ 3))]),
      (''WEIGHT_DECAY'', [PyFloat (float_literal (5 / 10 ^ 5))])]"

definition demo_world :: world where
  "demo_world = \<lparr> results_file = Absent, events = [], grad_enabled = True \<rparr>"

text \<open>The loop state once that dataset is loaded, and the hyperparameters of the grid.\<close>

definition demo_state :: search_state where
  "demo_state =
     \<lparr> config = [(''BATCH_SIZE'', PyInt 50), (''N_NODE'', PyInt 4)],
       prev_npred = PyInt 9, prev_nhist = PyInt 12,
       dataset = Some (replicate 10 demo_graph), num_graphs = Some 10 \<rparr>"

definition demo_params :: pydict where
  "demo_params =
     [(''N_PRED'', PyInt 9),
      (''N_HIST'', PyInt 12),
      (''DROPOUT'', PyFloat (float_literal (2 / 10))),
      (''INITIAL_LR'', PyFloat (float_literal (5 / 10 ^ 3))),
      (''WEIGHT_DECAY'', PyFloat (float_literal (5 / 10 ^ 5)))]"


section \<open>Facts about the shapes of the forward pass\<close>

lemma reshape_infer_last:
  assumes "0 < a" and "0 < b" and "numel s = a * b * c"
  shows "torch_reshape s [int a, int b, - 1] = Inr [a, b, c]"
  using assms by (simp add: torch_reshape_def)

lemma reshape_exact3:
  assumes "numel s = a * b * c"
  shows "torch_reshape s [int a, int b, int c] = Inr [a, b, c]"
  using assms by (simp add: torch_reshape_def)

lemma reshape_exact2:
  assumes "numel s = a * b"
  shows "torch_reshape s [int a, int b] = Inr [a, b]"
  using assms by (simp add: torch_reshape_def)

lemma AveragedGATConv_forward_shape:
  assumes "0 < n" and "0 < k" and "0 < c_out"
    and "num_nodes g = n"
  shows "AveragedGATConv_forward (AveragedGATConv_init c_in c_out k) g [n, c_in]
           = Inr ([n, c_out], [num_edges g, k, 1])"
proof -
  let ?m = "AveragedGATConv_init c_in c_out k"
  have conv: "GATConv_forward (gatconv ?m) g [n, c_in] = Inr ([n, k, c_out], [num_edges g, k, 1])"
    using assms(4) by (simp add: GATConv_forward_def AveragedGATConv_init_def)
  have view: "torch_reshape [n, k, c_out] [int n, int k, - 1] = Inr [n, k, c_out]"
    using assms(1,2) by (rule reshape_infer_last) (simp add: numel_def)
  have avg: "torch_mean [n, k, c_out] 1 = Inr [n, c_out]"
    by (simp add: torch_mean_def)
  have nh: "num_heads ?m = k"
    by (simp add: AveragedGATConv_init_def)
  show ?thesis
    using avg by (simp add: AveragedGATConv_forward_def conv bindE_def nh view)
qed

lemma squeeze_last_hidden:
  "0 < b \<Longrightarrow> torch_squeeze [b, 128] = (if b = 1 then [128] else [b, 128])"
  by (simp add: torch_squeeze_def)

lemma Linear_after_squeeze:
  assumes "0 < b"
  shows "\<exists>y. Linear_forward \<lparr> in_features = 128, out_features = k \<rparr> (torch_squeeze [b, 128]) = Inr y
           \<and> numel y = b * k"
  using assms by (auto simp: squeeze_last_hidden Linear_forward_def numel_def)

text \<open>
  Claim C4. The attention stage that \<open>ST_GAT.__init__\<close> builds (per-head output width equal
  to the input width, heads averaged) maps node features of width \<open>h\<close> to one vector of
  width \<open>h\<close> per node, whatever the positive head count \<open>k\<close>, and returns the attention
  weights beside it.
\<close>

theorem attention_stage_keeps_width:
  assumes "0 < n" and "0 < h" and "0 < k"
    and "num_nodes g = n"
  shows "AveragedGATConv_forward (gat (ST_GAT_init h p n_node k)) g [n, h]
           = Inr ([n, h], [num_edges g, k, 1])"
  using assms by (simp add: ST_GAT_init_def AveragedGATConv_forward_shape)

theorem attention_stage_keeps_width_witness:
  "(0::nat) < 4 \<and> (0::nat) < 12 \<and> (0::nat) < 3 \<and>
   AveragedGATConv_forward (gat (ST_GAT_init 12 9 4 3))
     \<lparr> num_nodes = 4, num_edges = 16, batch_size = Some 1, feat = [4, 12] \<rparr> [4, 12]
     = Inr ([4, 12], [16, 3, 1])"
  using attention_stage_keeps_width [of 4 12 3
      "\<lparr> num_nodes = 4, num_edges = 16, batch_size = Some 1, feat = [4, 12] \<rparr>" 9 4]
  by simp

text \<open>
  Claim C1. For positive \<open>B\<close>, \<open>N\<close>, \<open>H\<close> and \<open>P\<close>, the forward pass of the model on a
  batch of \<open>B\<close> graphs of \<open>N\<close> nodes, each node with \<open>H\<close> features, returns predictions of
  shape \<open>(B * N, P)\<close>. The case \<open>B = 1\<close>, where the squeeze removes the batch dimension
  before the linear layer, is included.
\<close>

theorem forward_output_shape:
  assumes "0 < B" and "0 < N" and "0 < H" and "0 < P"
    and "num_nodes g = B * N" and "feat g = [B * N, H]" and "batch_size g = Some B"
  shows "ST_GAT_forward (ST_GAT_init H P N NUM_HEADS) g
           = Inr ([B * N, P], [num_edges g, NUM_HEADS, 1])"
proof -
  let ?m = "ST_GAT_init H P N NUM_HEADS"
  have gatm: "gat ?m = AveragedGATConv_init H H NUM_HEADS"
    and flds: "n_nodes ?m = N" "n_pred ?m = P"
      "lstm1 ?m = \<lparr> input_size = N, hidden_size = 32 \<rparr>"
      "lstm2 ?m = \<lparr> input_size = 32, hidden_size = 128 \<rparr>"
      "linear ?m = \<lparr> in_features = 128, out_features = N * P \<rparr>"
    by (simp_all add: ST_GAT_init_def)
  have BN: "0 < B * N" using assms(1,2) by simp
  have s1: "AveragedGATConv_forward (gat ?m) g (feat g)
              = Inr ([B * N, H], [num_edges g, NUM_HEADS, 1])"
    unfolding gatm assms(6)
    using BN _ assms(3,5) by (rule AveragedGATConv_forward_shape) (simp add: NUM_HEADS_def)
  have s2: "torch_reshape [B * N, H] [int B, int N, - 1] = Inr [B, N, H]"
    using assms(1,2) by (rule reshape_infer_last) (simp add: numel_def)
  have s3: "torch_movedim [B, N, H] 2 0 = Inr [H, B, N]"
    by (simp add: torch_movedim_def)
  have s4: "LSTM_forward \<lparr> input_size = N, hidden_size = 32 \<rparr> [H, B, N] = Inr [H, B, 32]"
    by (simp add: LSTM_forward_def)
  have s5: "LSTM_forward \<lparr> input_size = 32, hidden_size = 128 \<rparr> [H, B, 32] = Inr [H, B, 128]"
    by (simp add: LSTM_forward_def)
  have s6: "select_last_step [H, B, 128] = Inr [B, 128]"
    using assms(3) by (simp add: select_last_step_def)
  obtain y where s7: "Linear_forward \<lparr> in_features = 128, out_features = N * P \<rparr>
                        (torch_squeeze [B, 128]) = Inr y"
    and ny: "numel y = B * (N * P)"
    using Linear_after_squeeze [OF assms(1)] by blast
  have s8: "torch_reshape y [int B, int N, int P] = Inr [B, N, P]"
    by (rule reshape_exact3) (simp add: ny)
  have s9: "torch_reshape [B, N, P] [int (B * N), int P] = Inr [B * N, P]"
    by (rule reshape_exact2) (simp add: numel_def)
  show ?thesis
    unfolding ST_GAT_forward_def Let_def
    using s9 by (simp add: s1 bindE_def assms(7) flds s2 s3 s4 s5 s6 s7 s8)
qed

theorem forward_output_shape_witness:
  "ST_GAT_forward (ST_GAT_init 12 9 4 NUM_HEADS)
     \<lparr> num_nodes = 4, num_edges = 16, batch_size = Some 1, feat = [4, 12] \<rparr>
     = Inr ([4, 9], [16, 8, 1]) \<and>
   ST_GAT_forward (ST_GAT_init 12 9 4 NUM_HEADS)
     \<lparr> num_nodes = 200, num_edges = 800, batch_size = Some 50, feat = [200, 12] \<rparr>
     = Inr ([200, 9], [800, 8, 1])"
  using forward_output_shape [of 1 4 12 9
      "\<lparr> num_nodes = 4, num_edges = 16, batch_size = Some 1, feat = [4, 12] \<rparr>"]
    forward_output_shape [of 50 4 12 9
      "\<lparr> num_nodes = 200, num_edges = 800, batch_size = Some 50, feat = [200, 12] \<rparr>"]
  by (simp add: NUM_HEADS_def)

section \<open>Facts about the learning-rate literals\<close>

lemma literal_1e_4: "float_literal (1 / 10 ^ 4) = 7378697629483821 / 73786976294838206464"
  by code_simp

lemma literal_5e_4: "float_literal (5 / 10 ^ 4) = 1152921504606847 / 2305843009213693952"
  by code_simp

lemma literal_1e_3: "float_literal (1 / 10 ^ 3) = 1152921504606847 / 1152921504606846976"
  by code_simp

lemma literal_5e_3: "float_literal (5 / 10 ^ 3) = 5764607523034235 / 1152921504606846976"
  by code_simp

lemma py_eq_proper_fraction:
  assumes "0 < c" and "c < 1"
  shows "py_eq v (PyFloat c) \<longleftrightarrow> v = PyFloat c"
proof (cases v)
  case (PyInt n)
  have "rat_of_int n \<noteq> c"
  proof
    assume "rat_of_int n = c"
    then have "0 < rat_of_int n" and "rat_of_int n < 1"
      using assms by simp_all
    then have "0 < n" and "n < 1" by simp_all
    then show False by simp
  qed
  then show ?thesis using PyInt by simp
next
  case (PyBool b)
  then show ?thesis using assms by auto
qed simp_all

lemma literals_normal:
  "float_literal (1 / 10000) = 7378697629483821 / 73786976294838206464"
  "float_literal (1 / 2000) = 1152921504606847 / 2305843009213693952"
  "float_literal (1 / 1000) = 1152921504606847 / 1152921504606846976"
  "float_literal (1 / 200) = 5764607523034235 / 1152921504606846976"
  using literal_1e_4 literal_5e_4 literal_1e_3 literal_5e_3 by simp_all

lemma py_eq_literals:
  "py_eq v (PyFloat (float_literal (1 / 10000))) \<longleftrightarrow> v = PyFloat (float_literal (1 / 10000))"
  "py_eq v (PyFloat (float_literal (1 / 2000))) \<longleftrightarrow> v = PyFloat (float_literal (1 / 2000))"
  "py_eq v (PyFloat (float_literal (1 / 1000))) \<longleftrightarrow> v = PyFloat (float_literal (1 / 1000))"
  "py_eq v (PyFloat (float_literal (1 / 200))) \<longleftrightarrow> v = PyFloat (float_literal (1 / 200))"
  by (rule py_eq_proper_fraction; simp add: literals_normal)+

text \<open>
  Claim C2. The epoch budget depends on the learning rate alone: it is 100 for \<open>1e-4\<close>, 80
  for \<open>5e-4\<close>, 70 for \<open>1e-3\<close> and 50 for \<open>5e-3\<close>, and for every other value the
  computation raises an exception instead of giving some number of epochs.
\<close>

theorem epoch_budget_five_behaviours:
  "epoch_budget (PyFloat (float_literal (1 / 10 ^ 4))) = Inr 100 \<and>
   epoch_budget (PyFloat (float_literal (5 / 10 ^ 4))) = Inr 80 \<and>
   epoch_budget (PyFloat (float_literal (1 / 10 ^ 3))) = Inr 70 \<and>
   epoch_budget (PyFloat (float_literal (5 / 10 ^ 3))) = Inr 50 \<and>
   (lr \<notin> {PyFloat (float_literal (1 / 10 ^ 4)), PyFloat (float_literal (5 / 10 ^ 4)),
           PyFloat (float_literal (1 / 10 ^ 3)), PyFloat (float_literal (5 / 10 ^ 3))}
      \<longrightarrow> epoch_budget lr = Inl RuntimeError)"
  by (simp add: epoch_budget_def py_eq_literals) (simp add: literals_normal)

theorem epoch_budget_five_behaviours_witness:
  "epoch_budget (PyFloat (float_literal (3 / 10 ^ 4))) = Inl RuntimeError \<and>
   epoch_budget (PyInt 1) = Inl RuntimeError \<and>
   epoch_budget (PyFloat (float_literal (5 / 10 ^ 3))) = Inr 50"
proof -
  have l3: "float_literal (3 / 10 ^ 4) = 5534023222112865 / 18446744073709551616"
    by code_simp
  have "PyFloat (float_literal (3 / 10 ^ 4)) \<notin>
          {PyFloat (float_literal (1 / 10 ^ 4)), PyFloat (float_literal (5 / 10 ^ 4)),
           PyFloat (float_literal (1 / 10 ^ 3)), PyFloat (float_literal (5 / 10 ^ 3))}"
    using l3 by (simp add: literals_normal)
  then show ?thesis
    using epoch_budget_five_behaviours [of "PyFloat (float_literal (3 / 10 ^ 4))"]
      epoch_budget_five_behaviours [of "PyInt 1"]
    by simp
qed

section \<open>Facts about the results file\<close>

text \<open>
  Claim C8. When the results file does not exist, \<open>load_previous_results\<close> returns the
  object with the one key \<open>Results\<close> and an empty list, and raises nothing; when the
  file exists and holds JSON, it returns the decoded content.
\<close>

theorem load_previous_results_cases:
  "(results_file w = Absent \<longrightarrow>
      load_previous_results w = Inr (PyDict [(''Results'', PyList [])])) \<and>
   (results_file w = Json v \<longrightarrow> load_previous_results w = Inr v)"
  by (simp add: load_previous_results_def)

theorem load_previous_results_cases_witness:
  "load_previous_results \<lparr> results_file = Absent, events = [], grad_enabled = True \<rparr>
     = Inr (PyDict [(''Results'', PyList [])]) \<and>
   load_previous_results
     \<lparr> results_file = Json (PyDict [(''Results'', PyList [PyInt 1])]), events = [],
       grad_enabled = True \<rparr>
     = Inr (PyDict [(''Results'', PyList [PyInt 1])])"
  using load_previous_results_cases
          [of "\<lparr> results_file = Absent, events = [], grad_enabled = True \<rparr>"]
        load_previous_results_cases
          [of "\<lparr> results_file = Json (PyDict [(''Results'', PyList [PyInt 1])]), events = [],
                 grad_enabled = True \<rparr>" "PyDict [(''Results'', PyList [PyInt 1])]"]
  by simp

section \<open>Facts about dictionaries\<close>

lemma map_of_replace:
  "map_of (map (\<lambda>(k', v'). if k' = k then (k', v) else (k', v')) d) x =
     (if x = k \<and> k \<in> set (map fst d) then Some v else map_of d x)"
proof (induction d)
  case Nil
  show ?case by simp
next
  case (Cons a d)
  obtain k' v' where a: "a = (k', v')" by (cases a)
  show ?case
  proof (cases "k' = k")
    case True
    then show ?thesis using Cons by (simp add: a)
  next
    case False
    then show ?thesis using Cons by (cases "x = k") (simp_all add: a)
  qed
qed

lemma map_of_dict_set: "map_of (dict_set d k v) x = (if x = k then Some v else map_of d x)"
proof (cases "k \<in> set (map fst d)")
  case True
  then show ?thesis
    by (simp add: dict_set_def map_of_replace)
next
  case False
  then have "map_of d k = None"
    by (simp add: map_of_eq_None_iff)
  with False show ?thesis
    by (simp add: dict_set_def map_add_def split: option.splits)
qed

section \<open>Facts about the run script\<close>

text \<open>
  The test of line 54. With a batch size in the configuration and a dataset that is not
  empty, the script trains if and only if it is not the case that the model checkpoint
  exists, the attention checkpoint exists and the retrain flag is unset. When those three
  hold it trains nothing: it loads the two checkpoints, or stops at a key that the
  configuration lacks.
\<close>

lemma training_skipped_iff:
  assumes "map_of cfg ''BATCH_SIZE'' = Some b" and "graphs \<noteq> []"
  shows "((\<exists>steps. run_script path_exists model_dir flags cfg graphs = Inr steps \<and>
                   Train_model \<in> set steps)
            \<longleftrightarrow> \<not> (path_exists (model_dir @ ''/model.pth'') \<and>
                     path_exists (model_dir @ ''/attention.pth'') \<and> \<not> RETRAIN flags)) \<and>
         (path_exists (model_dir @ ''/model.pth'') \<and>
          path_exists (model_dir @ ''/attention.pth'') \<and> \<not> RETRAIN flags \<longrightarrow>
            run_script path_exists model_dir flags cfg graphs \<in>
              {Inl KeyError,
               Inr [Load_model (model_dir @ ''/model.pth''),
                    Load_attention (model_dir @ ''/attention.pth''), Run_inference]})"
proof -
  have "py_getitem graphs 0 = Inr (graphs ! 0)"
    using assms(2) by (simp add: py_getitem_def)
  then show ?thesis
    using assms(1)
    by (auto simp: run_script_def bindE_def py_lookup_def Let_def split: option.splits)
qed

text \<open>
  Where a checkpoint is missing, and where the flag is set, the script trains; where both
  files are there, the flag is unset and the configuration has been given the key
  \<open>N_NODE\<close>, it loads them.
\<close>

lemma training_skipped_iff_examples:
  "(\<exists>steps. run_script (\<lambda>p. p = ''m/model.pth'') ''m''
               \<lparr> RETRAIN = False, SAVE_MODEL = True, SAVE_ATTENTION = False \<rparr>
               (script_config ''r'' (PyFloat 0) (PyFloat 1)) [demo_graph] = Inr steps \<and>
            Train_model \<in> set steps) \<and>
   (\<exists>steps. run_script (\<lambda>p. True) ''m'' script_flags
               (script_config ''r'' (PyFloat 0) (PyFloat 1)) [demo_graph] = Inr steps \<and>
            Train_model \<in> set steps) \<and>
   run_script (\<lambda>p. True) ''m''
     \<lparr> RETRAIN = False, SAVE_MODEL = True, SAVE_ATTENTION = False \<rparr>
     (dict_set (script_config ''r'' (PyFloat 0) (PyFloat 1)) ''N_NODE'' (PyInt 4)) [demo_graph]
     = Inr [Load_model ''m/model.pth'', Load_attention ''m/attention.pth'', Run_inference]"
proof -
  let ?cfg = "script_config ''r'' (PyFloat 0) (PyFloat 1)"
  have a: "map_of ?cfg ''BATCH_SIZE'' = Some (PyInt 50)"
    by (simp add: script_config_def map_of_dict_set)
  have a': "map_of (dict_set ?cfg ''N_NODE'' (PyInt 4)) ''BATCH_SIZE'' = Some (PyInt 50)"
    by (simp add: script_config_def map_of_dict_set)
  have g: "[demo_graph] \<noteq> []" by simp
  have c: "run_script (\<lambda>p. True) ''m''
     \<lparr> RETRAIN = False, SAVE_MODEL = True, SAVE_ATTENTION = False \<rparr>
     (dict_set ?cfg ''N_NODE'' (PyInt 4)) [demo_graph] \<noteq> Inl KeyError"
    by (simp add: run_script_def bindE_def py_lookup_def script_config_def map_of_dict_set)
  show ?thesis
    using training_skipped_iff [OF a g, of "\<lambda>p. p = ''m/model.pth''" "''m''"
        "\<lparr> RETRAIN = False, SAVE_MODEL = True, SAVE_ATTENTION = False \<rparr>"]
      training_skipped_iff [OF a g, of "\<lambda>p. True" "''m''" script_flags]
      training_skipped_iff [OF a' g, of "\<lambda>p. True" "''m''"
        "\<lparr> RETRAIN = False, SAVE_MODEL = True, SAVE_ATTENTION = False \<rparr>"]
      c
    by (simp add: script_flags_def)
qed

text \<open>
  With the configuration exactly as the script builds it, the branch that loads the
  checkpoints stops at the key \<open>N_NODE\<close>, which only the training branch sets, whatever
  the directories, the normalisation and the dataset are.
\<close>

lemma load_branch_needs_N_NODE:
  "run_script (\<lambda>p. True) model_dir
     \<lparr> RETRAIN = False, SAVE_MODEL = sm, SAVE_ATTENTION = sa \<rparr>
     (script_config runs_dir mean dev) graphs = Inl KeyError"
  by (simp add: run_script_def bindE_def py_lookup_def script_config_def map_of_dict_set)

text \<open>
  Claim C7. Training is to be skipped, and the model and the attention matrices loaded
  from the checkpoints, exactly when both checkpoint files exist and the retrain flag is
  unset. The script does test that condition, but the loading is not reached: with both
  files in place, \<open>RETRAIN\<close> set to \<open>False\<close> and the configuration of lines 29 to 41,
  line 56 reads \<open>config['N_NODE']\<close>, which only line 65 of the training branch sets, and
  the script stops with \<open>KeyError\<close> before either checkpoint is loaded and before
  inference. With the flag as the script has it the same configuration trains, and with
  the key supplied the checkpoints are loaded.
\<close>

theorem load_branch_raises_KeyError:
  "run_script (\<lambda>p. True) ''runs/model''
     \<lparr> RETRAIN = False, SAVE_MODEL = True, SAVE_ATTENTION = False \<rparr>
     (script_config ''runs'' (PyFloat 0) (PyFloat 1)) [demo_graph] = Inl KeyError \<and>
   py_lookup (script_config ''runs'' (PyFloat 0) (PyFloat 1)) ''N_NODE'' = Inl KeyError \<and>
   run_script (\<lambda>p. True) ''runs/model'' script_flags
     (script_config ''runs'' (PyFloat 0) (PyFloat 1)) [demo_graph]
     = Inr [Train_model, Save_model ''runs/model/model.pth'', Run_inference] \<and>
   run_script (\<lambda>p. True) ''runs/model''
     \<lparr> RETRAIN = False, SAVE_MODEL = True, SAVE_ATTENTION = False \<rparr>
     (dict_set (script_config ''runs'' (PyFloat 0) (PyFloat 1)) ''N_NODE'' (PyInt 4)) [demo_graph]
     = Inr [Load_model ''runs/model/model.pth'', Load_attention ''runs/model/attention.pth'',
            Run_inference]"
  by (simp add: run_script_def bindE_def py_lookup_def py_getitem_def script_config_def
      script_flags_def map_of_dict_set)

section \<open>Facts about the value the driver returns\<close>

lemma bindE_Inr_iff: "bindE m f = Inr y \<longleftrightarrow> (\<exists>x. m = Inr x \<and> f x = Inr y)"
  by (cases m) (simp_all add: bindE_def)

lemma bindE_Inl_iff: "bindE m f = Inl e \<longleftrightarrow> m = Inl e \<or> (\<exists>x. m = Inr x \<and> f x = Inl e)"
  by (cases m) (simp_all add: bindE_def)

text \<open>
  Claim C9. Whenever the driver returns, the triple it returns is the empty results
  dictionary, \<open>None\<close> for the best model and \<open>None\<close> for the best hyperparameters, whatever
  the configuration, the grid and the two indices are.
\<close>

theorem driver_returns_empty_triple:
  assumes "train_expanding_window_grid_search env cfg param_grid param_index fold_index w
             = Inr (w', r)"
  shows "r = (PyDict [], PyNone, PyNone)"
  using assms
  by (auto simp: train_expanding_window_grid_search_def Let_def bindE_Inr_iff)

section \<open>Facts about the epoch loop\<close>

lemma epoch_body_events:
  "epoch_body env epochs (w, v) e =
     (w\<lparr> events := events w @ Call_train e (grad_enabled w) #
            (if e mod 5 = 0 \<or> int e = int epochs - 1 then [Call_eval e False] else []) \<rparr>,
      if e mod 5 = 0 \<or> int e = int epochs - 1 then PyFloat (eval_mae env e) else v)"
  by (simp add: epoch_body_def emit_def Let_def)

lemma epoch_events_Suc:
  "epoch_events epochs g (Suc n) =
     epoch_events epochs g n @ Call_train n g #
       (if n mod 5 = 0 \<or> int n = int epochs - 1 then [Call_eval n False] else [])"
  by (simp add: epoch_events_def)

lemma epochs_prefix:
  "\<exists>v'. foldl (epoch_body env epochs) (w, v) [0 ..< n] =
          (w\<lparr> events := events w @ epoch_events epochs (grad_enabled w) n \<rparr>, v')"
proof (induction n)
  case 0
  show ?case by (simp add: epoch_events_def)
next
  case (Suc n)
  then obtain v' where
    "foldl (epoch_body env epochs) (w, v) [0 ..< n] =
       (w\<lparr> events := events w @ epoch_events epochs (grad_enabled w) n \<rparr>, v')"
    by blast
  then show ?case
    by (simp add: epoch_body_events epoch_events_Suc)
qed

lemma run_epochs_world:
  "fst (run_epochs env epochs (w, v)) =
     w\<lparr> events := events w @ epoch_events epochs (grad_enabled w) epochs \<rparr>"
  using epochs_prefix [of env epochs w v epochs] by (auto simp: run_epochs_def)

lemma run_epochs_value:
  "0 < epochs \<Longrightarrow> snd (run_epochs env epochs (w, v)) = PyFloat (eval_mae env (epochs - 1))"
proof -
  assume "0 < epochs"
  then obtain n where n: "epochs = Suc n" by (cases epochs) auto
  obtain w' v' where "foldl (epoch_body env epochs) (w, v) [0 ..< n] = (w', v')"
    by (cases "foldl (epoch_body env epochs) (w, v) [0 ..< n]")
  then show ?thesis
    by (simp add: run_epochs_def n epoch_body_events)
qed

lemma train_calls_append: "train_calls (xs @ ys) = train_calls xs @ train_calls ys"
  by (induction xs rule: train_calls.induct) simp_all

lemma eval_calls_append: "eval_calls (xs @ ys) = eval_calls xs @ eval_calls ys"
  by (induction xs rule: eval_calls.induct) simp_all

lemma train_calls_epoch_events: "train_calls (epoch_events epochs g n) = [0 ..< n]"
  by (induction n) (simp_all add: epoch_events_Suc train_calls_append, simp add: epoch_events_def)

lemma eval_calls_epoch_events:
  "eval_calls (epoch_events epochs g n) =
     map (\<lambda>e. (e, False)) (filter (\<lambda>e. e mod 5 = 0 \<or> int e = int epochs - 1) [0 ..< n])"
  by (induction n) (simp_all add: epoch_events_Suc eval_calls_append, simp add: epoch_events_def)

text \<open>
  Claim C6. In a training loop of \<open>E\<close> epochs, numbered from 0, the trainer trains in every
  epoch, in order, and evaluates on the validation data exactly in the epochs that are a
  multiple of 5 or equal to \<open>E - 1\<close>, each time with gradients switched off; the gradient
  mode is afterwards what it was before.
\<close>

theorem validation_schedule:
  "train_calls (new_events w (fst (run_epochs env E (w, v)))) = [0 ..< E] \<and>
   eval_calls (new_events w (fst (run_epochs env E (w, v)))) =
     map (\<lambda>e. (e, False)) (filter (\<lambda>e. e mod 5 = 0 \<or> e = E - 1) [0 ..< E]) \<and>
   grad_enabled (fst (run_epochs env E (w, v))) = grad_enabled w"
proof -
  have "filter (\<lambda>e. e mod 5 = 0 \<or> int e = int E - 1) [0 ..< E] =
        filter (\<lambda>e. e mod 5 = 0 \<or> e = E - 1) [0 ..< E]"
    by (rule filter_cong) auto
  then show ?thesis
    by (simp add: run_epochs_world new_events_def train_calls_epoch_events
        eval_calls_epoch_events)
qed

section \<open>Facts about the results log\<close>

lemma results_append_list:
  "results_append (PyDict [(''Results'', PyList rs)]) r = Inr (PyDict [(''Results'', PyList (rs @ [r]))])"
  by (simp add: results_append_def dict_set_def)

lemma write_result_appends:
  assumes "load_previous_results w = Inr (PyDict [(''Results'', PyList rs)])"
  shows "write_result params train_ratio val_mae time w =
           Inr (w\<lparr> results_file :=
                       Json (PyDict [(''Results'',
                         PyList (rs @ [result_record params train_ratio val_mae time]))]) \<rparr>)"
  using assms by (simp add: write_result_def bindE_def results_append_list)

lemma load_after_write:
  "load_previous_results (w\<lparr> results_file := Json v \<rparr>) = Inr v"
  by (simp add: load_previous_results_def)

lemma write_results_appends:
  assumes "load_previous_results w = Inr (PyDict [(''Results'', PyList rs)])"
  shows "\<exists>w'. write_results recs w = Inr w' \<and>
              load_previous_results w' = Inr (PyDict [(''Results'', PyList (rs @ map record_of recs))]) \<and>
              events w' = events w \<and> grad_enabled w' = grad_enabled w"
  using assms
proof (induction recs arbitrary: w rs)
  case Nil
  then show ?case by simp
next
  case (Cons rec recs)
  obtain params train_ratio val_mae time where rec: "rec = (params, train_ratio, val_mae, time)"
    by (cases rec) auto
  let ?w1 = "w\<lparr> results_file :=
                   Json (PyDict [(''Results'',
                     PyList (rs @ [result_record params train_ratio val_mae time]))]) \<rparr>"
  have step: "write_result params train_ratio val_mae time w = Inr ?w1"
    using Cons.prems by (rule write_result_appends)
  have "load_previous_results ?w1 =
          Inr (PyDict [(''Results'', PyList ((rs @ [record_of rec]))) ])"
    by (simp add: load_after_write rec record_of_def)
  from Cons.IH [OF this] obtain w' where
    "write_results recs ?w1 = Inr w'"
    "load_previous_results w' =
       Inr (PyDict [(''Results'', PyList ((rs @ [record_of rec]) @ map record_of recs))])"
    "events w' = events ?w1" "grad_enabled w' = grad_enabled ?w1"
    by blast
  then show ?case
    by (simp add: rec step bindE_def)
qed

lemma write_results_file:
  assumes "write_results recs w = Inr w'" and "recs \<noteq> []"
  shows "\<exists>v. results_file w' = Json v"
  using assms
proof (induction recs arbitrary: w)
  case Nil
  then show ?case by simp
next
  case (Cons rec recs)
  obtain params train_ratio val_mae time where rec: "rec = (params, train_ratio, val_mae, time)"
    by (cases rec) auto
  from Cons.prems(1) obtain w1 where
    w1: "write_result params train_ratio val_mae time w = Inr w1"
    and rest: "write_results recs w1 = Inr w'"
    by (auto simp: rec bindE_Inr_iff)
  from w1 have f1: "\<exists>v. results_file w1 = Json v"
    by (auto simp: write_result_def bindE_Inr_iff)
  show ?case
  proof (cases recs)
    case Nil
    with rest f1 show ?thesis by simp
  next
    case (Cons a list)
    then have "recs \<noteq> []" by simp
    with Cons.IH rest show ?thesis by blast
  qed
qed

text \<open>
  Claim C5. Starting without a results file and writing \<open>N\<close> fold results one after the
  other, each by reading what is there, appending in memory and writing the whole back,
  leaves a file that decodes to one object whose key \<open>Results\<close> holds the \<open>N\<close> records in
  the order they were written; each record has exactly the fields \<open>params\<close>,
  \<open>train_percent\<close>, \<open>mae\<close> and \<open>completion_time\<close>, holding the hyperparameters, the train
  ratio, the validation error and the time stamp of its fold.
\<close>

theorem results_log_round_trip:
  assumes "results_file w = Absent"
  shows "\<exists>w'. write_results recs w = Inr w' \<and>
          load_previous_results w' = Inr (PyDict [(''Results'', PyList (map record_of recs))]) \<and>
          (recs \<noteq> [] \<longrightarrow>
             results_file w' = Json (PyDict [(''Results'', PyList (map record_of recs))])) \<and>
          length (map record_of recs) = length recs \<and>
          list_all (\<lambda>x. case x of (params, train_ratio, val_mae, time) \<Rightarrow>
                      record_of x = PyDict [(''params'', PyDict params),
                                            (''train_percent'', PyFloat train_ratio),
                                            (''mae'', val_mae),
                                            (''completion_time'', PyStr time)]) recs"
proof -
  have "load_previous_results w = Inr (PyDict [(''Results'', PyList [])])"
    using assms by (simp add: load_previous_results_def)
  from write_results_appends [OF this, of recs] obtain w' where
    w': "write_results recs w = Inr w'"
    and l: "load_previous_results w' = Inr (PyDict [(''Results'', PyList (map record_of recs))])"
    by auto
  have "results_file w' = Json (PyDict [(''Results'', PyList (map record_of recs))])"
    if "recs \<noteq> []"
  proof -
    from write_results_file [OF w' that] obtain v where "results_file w' = Json v" by blast
    with l show ?thesis by (simp add: load_previous_results_def)
  qed
  moreover have "list_all (\<lambda>x. case x of (params, train_ratio, val_mae, time) \<Rightarrow>
                      record_of x = PyDict [(''params'', PyDict params),
                                            (''train_percent'', PyFloat train_ratio),
                                            (''mae'', val_mae),
                                            (''completion_time'', PyStr time)]) recs"
    by (simp add: list_all_iff record_of_def result_record_def split: prod.splits)
  ultimately show ?thesis
    using w' l by auto
qed

theorem results_log_round_trip_witness:
  "\<exists>w'. write_results
          [([(''N_PRED'', PyInt 9)], 7 / 10, PyFloat (1 / 2), ''t1''),
           ([(''N_PRED'', PyInt 9)], 8 / 10, PyFloat (1 / 4), ''t2'')] demo_world = Inr w' \<and>
        results_file w' = Json (PyDict [(''Results'', PyList
          [PyDict [(''params'', PyDict [(''N_PRED'', PyInt 9)]), (''train_percent'', PyFloat (7 / 10)),
                   (''mae'', PyFloat (1 / 2)), (''completion_time'', PyStr ''t1'')],
           PyDict [(''params'', PyDict [(''N_PRED'', PyInt 9)]), (''train_percent'', PyFloat (8 / 10)),
                   (''mae'', PyFloat (1 / 4)), (''completion_time'', PyStr ''t2'')]])])"
proof -
  have "results_file demo_world = Absent"
    by (simp add: demo_world_def)
  from results_log_round_trip [OF this,
      of "[([(''N_PRED'', PyInt 9)], 7 / 10, PyFloat (1 / 2), ''t1''),
           ([(''N_PRED'', PyInt 9)], 8 / 10, PyFloat (1 / 4), ''t2'')]"]
  show ?thesis
    by (auto simp: record_of_def result_record_def simp del: write_results.simps)
qed

section \<open>Facts about rounding and the split sizes\<close>

lemma round_half_even_nonneg:
  assumes "0 \<le> n" and "0 < d"
  shows "0 \<le> round_half_even n d"
proof -
  have "0 \<le> n div d"
    using assms by (simp add: pos_imp_zdiv_nonneg_iff)
  then show ?thesis
    by (simp add: round_half_even_def Let_def)
qed

lemma scaled_fraction_signs:
  assumes "0 \<le> p" and "0 < q" and "scaled_fraction p q e = (n, d)"
  shows "0 \<le> n \<and> 0 < d"
  using assms by (auto simp: scaled_fraction_def split: if_splits)

lemma round_to_double_nonneg:
  assumes "0 \<le> x"
  shows "0 \<le> round_to_double x"
proof (cases "x = 0")
  case True
  then show ?thesis by (simp add: round_to_double_def)
next
  case False
  with assms have x: "0 < x" by simp
  obtain p q where pq: "quotient_of x = (p, q)"
    by (cases "quotient_of x")
  have q: "0 < q"
    using pq by (rule quotient_of_denom_pos)
  have "x = of_int p / of_int q"
    using pq by (rule quotient_of_div)
  with x q have p: "0 \<le> p"
    by (simp add: zero_less_divide_iff)
  obtain n d where nd: "scaled_fraction p q (binary_exponent p q - 52) = (n, d)"
    by (cases "scaled_fraction p q (binary_exponent p q - 52)")
  have m: "0 \<le> round_half_even n d"
    using scaled_fraction_signs [OF p q nd] by (simp add: round_half_even_nonneg)
  have "0 \<le> (if 0 \<le> binary_exponent p q - 52
               then rat_of_int (round_half_even n d * 2 ^ nat (binary_exponent p q - 52))
               else rat_of_int (round_half_even n d)
                      / rat_of_int (2 ^ nat (- (binary_exponent p q - 52))))"
    using m by simp
  then show ?thesis
    using x False by (simp add: round_to_double_def pq nd Let_def)
qed

lemma split_size_nonneg:
  assumes "0 \<le> ratio"
  shows "0 \<le> split_size ratio n"
proof -
  have "0 \<le> float_of_int (int n)"
    unfolding float_of_int_def by (rule round_to_double_nonneg) simp
  then have "0 \<le> ratio * float_of_int (int n)"
    using assms by simp
  then have "0 \<le> float_mul ratio (float_of_int (int n))"
    unfolding float_mul_def by (rule round_to_double_nonneg)
  then show ?thesis
    by (simp add: split_size_def int_of_float_def)
qed

lemma val_ratio_nonneg: "0 \<le> val_ratio"
  unfolding val_ratio_def float_literal_def by (rule round_to_double_nonneg) simp

lemma split_size_is_floor:
  assumes "0 \<le> ratio"
  shows "split_size ratio n = \<lfloor>float_mul ratio (float_of_int (int n))\<rfloor>"
proof -
  have "0 \<le> float_of_int (int n)"
    unfolding float_of_int_def by (rule round_to_double_nonneg) simp
  then have "0 \<le> ratio * float_of_int (int n)"
    using assms by simp
  then have "0 \<le> float_mul ratio (float_of_int (int n))"
    unfolding float_mul_def by (rule round_to_double_nonneg)
  then show ?thesis
    by (simp add: split_size_def int_of_float_def)
qed

section \<open>Facts about slicing the dataset\<close>

lemma py_getitem_in_range:
  assumes "0 \<le> i" and "i < int (length xs)"
  shows "py_getitem xs i = Inr (xs ! nat i)"
  using assms by (simp add: py_getitem_def)

lemma collect_in_range:
  assumes "\<And>i. i \<in> set idx \<Longrightarrow> 0 \<le> i \<and> i < int (length xs)"
  shows "collect (py_getitem xs) idx = Inr (map (\<lambda>i. xs ! nat i) idx)"
  using assms
proof (induction idx)
  case Nil
  show ?case by simp
next
  case (Cons i idx)
  then have "py_getitem xs i = Inr (xs ! nat i)"
    by (simp add: py_getitem_in_range)
  moreover have "collect (py_getitem xs) idx = Inr (map (\<lambda>i. xs ! nat i) idx)"
    using Cons by simp
  ultimately show ?case
    by (simp add: bindE_def)
qed

lemma train_subset_slice:
  assumes "0 \<le> ts" and "ts \<le> int (length ds)"
  shows "collect (py_getitem ds) (py_range ts) = Inr (take (nat ts) ds)"
proof -
  have "collect (py_getitem ds) (py_range ts) = Inr (map (\<lambda>i. ds ! nat i) (py_range ts))"
    using assms by (intro collect_in_range) (auto simp: py_range_def)
  moreover have "map (\<lambda>i. ds ! nat i) (py_range ts) = take (nat ts) ds"
    using assms by (intro nth_equalityI) (auto simp: py_range_def)
  ultimately show ?thesis by simp
qed

lemma val_subset_slice:
  assumes "0 \<le> ts" and "0 \<le> vs" and "ts + vs \<le> int (length ds)"
  shows "collect (py_getitem ds) (py_range_from ts (ts + vs)) = Inr (take (nat vs) (drop (nat ts) ds))"
proof -
  have "collect (py_getitem ds) (py_range_from ts (ts + vs))
          = Inr (map (\<lambda>i. ds ! nat i) (py_range_from ts (ts + vs)))"
    using assms by (intro collect_in_range) (auto simp: py_range_from_def)
  moreover have "map (\<lambda>i. ds ! nat i) (py_range_from ts (ts + vs)) = take (nat vs) (drop (nat ts) ds)"
    using assms by (intro nth_equalityI) (auto simp: py_range_from_def nat_add_distrib)
  ultimately show ?thesis by simp
qed

section \<open>Facts about the size check of a fold\<close>

lemma py_lookup_error: "py_lookup d k = Inl e \<Longrightarrow> e = KeyError"
  by (auto simp: py_lookup_def split: option.splits)

lemma epoch_budget_error: "epoch_budget lr = Inl e \<Longrightarrow> e = RuntimeError"
  by (auto simp: epoch_budget_def split: if_splits)

lemma py_float_times_error: "py_float_times a v = Inl e \<Longrightarrow> e = TypeError"
  by (auto simp: py_float_times_def split: pyval.splits)

lemma write_result_error: "write_result ps r m t w = Inl e \<Longrightarrow> e \<noteq> IndexError"
  by (auto simp: write_result_def bindE_Inl_iff load_previous_results_def results_append_def
      split: file_content.splits pyval.splits option.splits)

lemma fold_train_no_IndexError:
  assumes "dataset st = Some ds" and "0 \<le> ts" and "0 \<le> vs" and "ts + vs \<le> int (length ds)"
  shows "fold_train env st ps k r ts vs s \<noteq> Inl IndexError"
proof -
  have t: "collect (py_getitem ds) (py_range ts) = Inr (take (nat ts) ds)"
    using assms by (intro train_subset_slice) simp_all
  have v: "collect (py_getitem ds) (py_range_from ts (ts + vs)) = Inr (take (nat vs) (drop (nat ts) ds))"
    using assms by (intro val_subset_slice) simp_all
  show ?thesis
    unfolding fold_train_def
    by (auto simp: assms(1) t v bindE_Inl_iff Let_def split: prod.splits
        dest: py_lookup_error epoch_budget_error py_float_times_error write_result_error)
qed

lemma split_9_100: "split_size (float_literal (9 / 10)) 100 = 90"
  by code_simp

lemma split_1_100: "split_size val_ratio 100 = 10"
  by code_simp

lemma split_9_99: "split_size (float_literal (9 / 10)) 99 = 89"
  by code_simp

lemma split_1_99: "split_size val_ratio 99 = 9"
  by code_simp

text \<open>
  The products are taken in double precision: \<open>0.7 * 90\<close> is the double just below 63,
  so the train size of 90 graphs at ratio 0.7 is 62.
\<close>

lemma split_7_90: "split_size (float_literal (7 / 10)) 90 = 62"
  by code_simp

section \<open>Facts about a whole run of the driver\<close>

lemma py_eq_None: "py_eq v PyNone \<longleftrightarrow> v = PyNone"
  by (cases v) simp_all

lemma epoch_budget_pos: "epoch_budget lr = Inr E \<Longrightarrow> 0 < E"
  by (auto simp: epoch_budget_def split: if_splits)

lemma load_previous_results_file:
  "results_file w' = results_file w \<Longrightarrow> load_previous_results w' = load_previous_results w"
  by (simp add: load_previous_results_def)

lemma run_epochs_pair:
  assumes "0 < E"
  shows "run_epochs env E (w, v) =
           (w\<lparr> events := events w @ epoch_events E (grad_enabled w) E \<rparr>,
            PyFloat (eval_mae env (E - 1)))"
  using run_epochs_world [of env E w v] run_epochs_value [OF assms, of env w v]
  by (cases "run_epochs env E (w, v)") simp

lemma fold_train_success:
  assumes ds: "dataset st = Some ds"
    and sizes: "0 \<le> ts" "0 \<le> vs" "ts + vs \<le> int (length ds)"
    and cfg: "map_of (config st) ''BATCH_SIZE'' = Some bs" "map_of (config st) ''N_NODE'' = Some nn"
    and ps: "map_of ps ''N_HIST'' = Some nh" "map_of ps ''N_PRED'' = Some np"
      "map_of ps ''DROPOUT'' = Some dr" "map_of ps ''INITIAL_LR'' = Some lr"
      "map_of ps ''WEIGHT_DECAY'' = Some wd"
    and budget: "epoch_budget lr = Inr E"
    and log: "load_previous_results w = Inr (PyDict [(''Results'', PyList rs)])"
  shows "\<exists>a' w'. fold_train env st ps k r ts vs (a, w) = Inr (a', w') \<and>
           results_file w' = Json (PyDict [(''Results'',
              PyList (rs @ [result_record ps r (PyFloat (eval_mae env (E - 1))) (now env)]))]) \<and>
           train_calls (new_events w w') = [0 ..< E]"
proof -
  have t: "collect (py_getitem ds) (py_range ts) = Inr (take (nat ts) ds)"
    using sizes by (intro train_subset_slice) simp_all
  have v: "collect (py_getitem ds) (py_range_from ts (ts + vs)) = Inr (take (nat vs) (drop (nat ts) ds))"
    using sizes by (intro val_subset_slice) simp_all
  have E: "0 < E" using budget by (rule epoch_budget_pos)
  define m where "m = PyFloat (eval_mae env (E - 1))"
  define n1 where "n1 = length (take (nat ts) ds)"
  define n2 where "n2 = length (take (nat vs) (drop (nat ts) ds))"
  define w1 where "w1 = emit (Print_fold k n1 r n2 val_ratio) w"
  define w2 where "w2 = w1\<lparr> events := events w1 @ epoch_events E (grad_enabled w1) E \<rparr>"
  define w3 where "w3 = emit (Print_achieved m E k) w2"
  define w4 where "w4 = w3\<lparr> results_file := Json (PyDict [(''Results'',
              PyList (rs @ [result_record ps r m (now env)]))]) \<rparr>"
  have re: "run_epochs env E (w1, PyNone) = (w2, m)"
    unfolding w2_def m_def using E by (rule run_epochs_pair)
  have "load_previous_results w3 = load_previous_results w"
    by (rule load_previous_results_file) (simp add: w3_def w2_def w1_def emit_def)
  then have "load_previous_results w3 = Inr (PyDict [(''Results'', PyList rs)])"
    using log by simp
  then have wr: "write_result ps r m (now env) w3 = Inr w4"
    unfolding w4_def by (rule write_result_appends)
  have times: "py_float_times r m = Inr (float_mul r (eval_mae env (E - 1)))"
    by (simp add: py_float_times_def m_def)
  have run: "fold_train env st ps k r ts vs (a, w) =
      Inr (float_add a (float_mul r (eval_mae env (E - 1))), w4)"
    unfolding fold_train_def Let_def
    by (simp only: ds t v cfg ps budget py_lookup_def bindE_def sum.case option.case prod.case
        n1_def [symmetric] n2_def [symmetric] w1_def [symmetric] re w3_def [symmetric] times wr)
  have tc: "train_calls (new_events w w4) = [0 ..< E]"
    by (simp add: new_events_def w4_def w3_def w2_def w1_def emit_def train_calls_append
        train_calls_epoch_events)
  have "results_file w4 = Json (PyDict [(''Results'',
              PyList (rs @ [result_record ps r (PyFloat (eval_mae env (E - 1))) (now env)]))])"
    by (simp add: w4_def m_def)
  then show ?thesis
    using run tc by blast
qed

lemma fold_loop_single_success:
  assumes ds: "dataset st = Some ds" and n: "num_graphs st = Some (length ds)"
    and r: "0 \<le> r"
    and fits: "split_size r (length ds) + split_size val_ratio (length ds) \<le> int (length ds)"
    and cfg: "map_of (config st) ''BATCH_SIZE'' = Some bs" "map_of (config st) ''N_NODE'' = Some nn"
    and ps: "map_of ps ''N_HIST'' = Some nh" "map_of ps ''N_PRED'' = Some np"
      "map_of ps ''DROPOUT'' = Some dr" "map_of ps ''INITIAL_LR'' = Some lr"
      "map_of ps ''WEIGHT_DECAY'' = Some wd"
    and budget: "epoch_budget lr = Inr E"
    and log: "load_previous_results w = Inr (PyDict [(''Results'', PyList rs)])"
  shows "\<exists>a' w'. fold_loop env st ps [(k, r)] (a, w) = Inr (a', w') \<and>
           results_file w' = Json (PyDict [(''Results'',
              PyList (rs @ [result_record ps r (PyFloat (eval_mae env (E - 1))) (now env)]))])"
proof -
  let ?ts = "split_size r (length ds)" and ?vs = "split_size val_ratio (length ds)"
  have ts: "0 \<le> ?ts" using r by (rule split_size_nonneg)
  have vs: "0 \<le> ?vs" using val_ratio_nonneg by (rule split_size_nonneg)
  from fold_train_success [OF ds ts vs fits cfg ps budget log, of env k r a]
  obtain a' w' where
    run: "fold_train env st ps k r ?ts ?vs (a, w) = Inr (a', w')"
    and res: "results_file w' = Json (PyDict [(''Results'',
              PyList (rs @ [result_record ps r (PyFloat (eval_mae env (E - 1))) (now env)]))])"
    by blast
  have "fold_body env st ps (k, r) (a, w) = Inr ((a', w'), Continue)"
    using fits by (simp add: fold_body_def n Let_def run bindE_def)
  then have "fold_loop env st ps [(k, r)] (a, w) = Inr (a', w')"
    by (simp add: bindE_def)
  with res show ?thesis by blast
qed

lemma rebuild_dataset_result:
  assumes "get_processed_dataset env (dict_set (dict_set (config st) ''N_PRED'' np) ''N_HIST'' nh)
             = (ds, mean, dev)"
    and "ds \<noteq> []"
  shows "\<exists>st'. rebuild_dataset env np nh (st, w) = Inr (st', emit Print_regenerating w) \<and>
           dataset st' = Some ds \<and> num_graphs st' = Some (length ds) \<and>
           map_of (config st') ''BATCH_SIZE'' = map_of (config st) ''BATCH_SIZE'' \<and>
           map_of (config st') ''N_NODE'' = Some (PyInt (int (num_nodes (ds ! 0))))"
proof -
  have "py_getitem ds 0 = Inr (ds ! 0)"
    using assms(2) by (simp add: py_getitem_def)
  then show ?thesis
    using assms(1)
    by (simp add: rebuild_dataset_def Let_def bindE_def map_of_dict_set)
qed

lemma float_div_by_one: "float_div_int a 1 = Inr (round_to_double (a / float_of_int 1))"
  by (simp add: float_div_int_def)

lemma param_loop_single_success:
  assumes ps: "map_of (zip keys c) ''N_HIST'' = Some nh" "map_of (zip keys c) ''N_PRED'' = Some np"
      "map_of (zip keys c) ''DROPOUT'' = Some dr" "map_of (zip keys c) ''INITIAL_LR'' = Some lr"
      "map_of (zip keys c) ''WEIGHT_DECAY'' = Some wd"
    and fresh: "prev_npred st = PyNone" "prev_nhist st = PyNone" "np \<noteq> PyNone \<or> nh \<noteq> PyNone"
    and load: "get_processed_dataset env (dict_set (dict_set (config st) ''N_PRED'' np) ''N_HIST'' nh)
             = (ds, mean, dev)"
    and ne: "ds \<noteq> []"
    and bs: "map_of (config st) ''BATCH_SIZE'' = Some bs"
    and r: "0 \<le> r"
    and fits: "split_size r (length ds) + split_size val_ratio (length ds) \<le> int (length ds)"
    and budget: "epoch_budget lr = Inr E"
    and log: "load_previous_results w = Inr (PyDict [(''Results'', PyList rs)])"
  shows "\<exists>st' w'. param_loop env keys [r] [c] (st, w) = Inr (st', w') \<and>
           results_file w' = Json (PyDict [(''Results'',
              PyList (rs @ [result_record (zip keys c) r (PyFloat (eval_mae env (E - 1))) (now env)]))])"
proof -
  let ?ps = "zip keys c"
  let ?w0 = "emit (Print_testing ?ps) w"
  let ?w1 = "emit Print_regenerating ?w0"
  from rebuild_dataset_result [OF load ne, of ?w0] obtain st1 where
    rb: "rebuild_dataset env np nh (st, ?w0) = Inr (st1, ?w1)"
    and st1: "dataset st1 = Some ds" "num_graphs st1 = Some (length ds)"
    and cfg1: "map_of (config st1) ''BATCH_SIZE'' = Some bs"
      "map_of (config st1) ''N_NODE'' = Some (PyInt (int (num_nodes (ds ! 0))))"
    using bs by auto
  have "load_previous_results ?w1 = load_previous_results w"
    by (rule load_previous_results_file) (simp add: emit_def)
  then have log1: "load_previous_results ?w1 = Inr (PyDict [(''Results'', PyList rs)])"
    using log by simp
  from fold_loop_single_success [OF st1 r fits cfg1 ps budget log1, of env 0 0]
  obtain a' w' where
    fl: "fold_loop env st1 ?ps [(0, r)] (0, ?w1) = Inr (a', w')"
    and res: "results_file w' = Json (PyDict [(''Results'',
              PyList (rs @ [result_record ?ps r (PyFloat (eval_mae env (E - 1))) (now env)]))])"
    by blast
  have changed: "\<not> py_eq np (prev_npred st) \<or> \<not> py_eq nh (prev_nhist st)"
    using fresh by (simp add: py_eq_None)
  have body: "param_body env keys [r] c (st, w) = Inr (st1, w')"
    unfolding param_body_def Let_def
    using changed
    by (simp add: ps py_lookup_def bindE_def rb fl float_div_by_one del: fold_loop.simps)
  have "param_loop env keys [r] [c] (st, w) = Inr (st1, w')"
    using body by (simp add: bindE_def)
  with res show ?thesis by blast
qed

lemma schedule_nonneg:
  "0 \<le> float_literal (7 / 10)" "0 \<le> float_literal (8 / 10)" "0 \<le> float_literal (9 / 10)"
  unfolding float_literal_def by (rule round_to_double_nonneg, simp)+

lemma driver_success:
  assumes fold: "py_getitem [float_literal (7 / 10), float_literal (8 / 10), float_literal (9 / 10)]
                   fold_index = Inr r"
    and comb: "py_getitem (itertools_product (map snd param_grid)) param_index = Inr c"
    and ps: "map_of (zip (map fst param_grid) c) ''N_HIST'' = Some nh"
      "map_of (zip (map fst param_grid) c) ''N_PRED'' = Some np"
      "map_of (zip (map fst param_grid) c) ''DROPOUT'' = Some dr"
      "map_of (zip (map fst param_grid) c) ''INITIAL_LR'' = Some lr"
      "map_of (zip (map fst param_grid) c) ''WEIGHT_DECAY'' = Some wd"
    and some: "np \<noteq> PyNone \<or> nh \<noteq> PyNone"
    and load: "get_processed_dataset env (dict_set (dict_set cfg ''N_PRED'' np) ''N_HIST'' nh)
             = (ds, mean, dev)"
    and ne: "ds \<noteq> []"
    and bs: "map_of cfg ''BATCH_SIZE'' = Some bs"
    and fits: "split_size r (length ds) + split_size val_ratio (length ds) \<le> int (length ds)"
    and budget: "epoch_budget lr = Inr E"
    and log: "load_previous_results w = Inr (PyDict [(''Results'', PyList rs)])"
  shows "\<exists>w'. train_expanding_window_grid_search env cfg param_grid param_index fold_index w
                = Inr (w', (PyDict [], PyNone, PyNone)) \<and>
              results_file w' = Json (PyDict [(''Results'',
                PyList (rs @ [result_record (zip (map fst param_grid) c) r
                                (PyFloat (eval_mae env (E - 1))) (now env)]))])"
proof -
  let ?st = "\<lparr> config = cfg, prev_npred = PyNone, prev_nhist = PyNone,
                dataset = None, num_graphs = None \<rparr>"
  have r: "0 \<le> r"
    using fold schedule_nonneg
    by (auto simp: py_getitem_def Let_def nth_Cons split: if_splits nat.splits)
  have load': "get_processed_dataset env
                 (dict_set (dict_set (config ?st) ''N_PRED'' np) ''N_HIST'' nh) = (ds, mean, dev)"
    using load by simp
  have bs': "map_of (config ?st) ''BATCH_SIZE'' = Some bs"
    using bs by simp
  from param_loop_single_success [OF ps _ _ some load' ne bs' r fits budget log]
  obtain st' w' where
    "param_loop env (map fst param_grid) [r] [c] (?st, w) = Inr (st', w')"
    and res: "results_file w' = Json (PyDict [(''Results'',
                PyList (rs @ [result_record (zip (map fst param_grid) c) r
                                (PyFloat (eval_mae env (E - 1))) (now env)]))])"
    by auto
  then have "train_expanding_window_grid_search env cfg param_grid param_index fold_index w
               = Inr (w', (PyDict [], PyNone, PyNone))"
    unfolding train_expanding_window_grid_search_def Let_def
    using fold comb by (simp add: bindE_def del: param_loop.simps)
  with res show ?thesis by blast
qed

section \<open>The driver on the small experiment\<close>

lemma demo_budget: "epoch_budget (PyFloat (float_literal (5 / 10 ^ 3))) = Inr 50"
  by code_simp

lemma demo_split_7: "split_size (float_literal (7 / 10)) 10 = 7"
  by code_simp

lemma demo_split_8: "split_size (float_literal (8 / 10)) 10 = 8"
  by code_simp

lemma demo_split_val: "split_size val_ratio 10 = 1"
  by code_simp

lemma demo_combination:
  "py_getitem (itertools_product (map snd demo_grid)) 0 = Inr (map snd demo_params)"
  "zip (map fst demo_grid) (map snd demo_params) = demo_params"
  by (simp_all add: demo_grid_def demo_params_def py_getitem_def)

lemma demo_fold_run:
  assumes "py_getitem [float_literal (7 / 10), float_literal (8 / 10), float_literal (9 / 10)]
             fold_index = Inr r"
    and "split_size r 10 + 1 \<le> 10"
    and "load_previous_results w = Inr (PyDict [(''Results'', PyList rs)])"
  shows "\<exists>w'. train_expanding_window_grid_search demo_env demo_config demo_grid 0 fold_index w
                = Inr (w', (PyDict [], PyNone, PyNone)) \<and>
              results_file w' = Json (PyDict [(''Results'',
                PyList (rs @ [result_record demo_params r (PyFloat (1 / 2)) (now demo_env)]))])"
proof -
  have ps: "map_of (zip (map fst demo_grid) (map snd demo_params)) ''N_HIST'' = Some (PyInt 12)"
    "map_of (zip (map fst demo_grid) (map snd demo_params)) ''N_PRED'' = Some (PyInt 9)"
    "map_of (zip (map fst demo_grid) (map snd demo_params)) ''DROPOUT''
       = Some (PyFloat (float_literal (2 / 10)))"
    "map_of (zip (map fst demo_grid) (map snd demo_params)) ''INITIAL_LR''
       = Some (PyFloat (float_literal (5 / 10 ^ 3)))"
    "map_of (zip (map fst demo_grid) (map snd demo_params)) ''WEIGHT_DECAY''
       = Some (PyFloat (float_literal (5 / 10 ^ 5)))"
    unfolding demo_combination by (simp_all add: demo_params_def)
  have some: "PyInt 9 \<noteq> PyNone \<or> PyInt 12 \<noteq> PyNone" by simp
  have load: "get_processed_dataset demo_env
                (dict_set (dict_set demo_config ''N_PRED'' (PyInt 9)) ''N_HIST'' (PyInt 12))
              = (replicate 10 demo_graph, PyFloat 0, PyFloat 1)"
    by (simp add: demo_env_def)
  have ne: "replicate 10 demo_graph \<noteq> []" by simp
  have bs: "map_of demo_config ''BATCH_SIZE'' = Some (PyInt 50)"
    by (simp add: demo_config_def)
  have fits: "split_size r (length (replicate 10 demo_graph))
                + split_size val_ratio (length (replicate 10 demo_graph))
              \<le> int (length (replicate 10 demo_graph))"
    using assms(2) by (simp add: demo_split_val)
  have mae: "eval_mae demo_env (50 - 1) = 1 / 2"
    by (simp add: demo_env_def)
  from driver_success [OF assms(1) demo_combination(1) ps some load ne bs fits demo_budget assms(3)]
  show ?thesis
    unfolding demo_combination mae .
qed

lemma demo_first_fold:
  "\<exists>w'. train_expanding_window_grid_search demo_env demo_config demo_grid 0 0 demo_world
           = Inr (w', (PyDict [], PyNone, PyNone)) \<and>
         results_file w' = Json (PyDict [(''Results'',
           PyList [result_record demo_params (float_literal (7 / 10)) (PyFloat (1 / 2))
                     (now demo_env)])])"
proof -
  have f: "py_getitem [float_literal (7 / 10), float_literal (8 / 10), float_literal (9 / 10)] 0
             = Inr (float_literal (7 / 10))"
    by (simp add: py_getitem_def)
  have s: "split_size (float_literal (7 / 10)) 10 + 1 \<le> 10"
    by (simp add: demo_split_7)
  have l: "load_previous_results demo_world = Inr (PyDict [(''Results'', PyList [])])"
    by (simp add: load_previous_results_def demo_world_def)
  from demo_fold_run [OF f s l] show ?thesis by simp
qed

text \<open>
  Two invocations one after the other, for the first and the second fold: the second
  finds the record of the first and appends its own.
\<close>

lemma demo_two_folds:
  "\<exists>w1 w2.
     train_expanding_window_grid_search demo_env demo_config demo_grid 0 0 demo_world
       = Inr (w1, (PyDict [], PyNone, PyNone)) \<and>
     train_expanding_window_grid_search demo_env demo_config demo_grid 0 1 w1
       = Inr (w2, (PyDict [], PyNone, PyNone)) \<and>
     results_file w2 = Json (PyDict [(''Results'',
       PyList [result_record demo_params (float_literal (7 / 10)) (PyFloat (1 / 2)) (now demo_env),
               result_record demo_params (float_literal (8 / 10)) (PyFloat (1 / 2))
                 (now demo_env)])])"
proof -
  from demo_first_fold obtain w1 where
    r1: "train_expanding_window_grid_search demo_env demo_config demo_grid 0 0 demo_world
           = Inr (w1, (PyDict [], PyNone, PyNone))"
    and f1: "results_file w1 = Json (PyDict [(''Results'',
           PyList [result_record demo_params (float_literal (7 / 10)) (PyFloat (1 / 2))
                     (now demo_env)])])"
    by blast
  have f: "py_getitem [float_literal (7 / 10), float_literal (8 / 10), float_literal (9 / 10)] 1
             = Inr (float_literal (8 / 10))"
    by (simp add: py_getitem_def)
  have s: "split_size (float_literal (8 / 10)) 10 + 1 \<le> 10"
    using demo_split_8 by simp
  have l: "load_previous_results w1 = Inr (PyDict [(''Results'',
           PyList [result_record demo_params (float_literal (7 / 10)) (PyFloat (1 / 2))
                     (now demo_env)])])"
    using f1 by (simp add: load_previous_results_def)
  from demo_fold_run [OF f s l] obtain w2 where
    "train_expanding_window_grid_search demo_env demo_config demo_grid 0 1 w1
       = Inr (w2, (PyDict [], PyNone, PyNone))"
    "results_file w2 = Json (PyDict [(''Results'',
       PyList ([result_record demo_params (float_literal (7 / 10)) (PyFloat (1 / 2)) (now demo_env)]
               @ [result_record demo_params (float_literal (8 / 10)) (PyFloat (1 / 2))
                 (now demo_env)]))])"
    by blast
  with r1 show ?thesis by auto
qed

theorem driver_returns_empty_triple_witness:
  "\<exists>w'. train_expanding_window_grid_search demo_env demo_config demo_grid 0 0 demo_world
           = Inr (w', (PyDict [], PyNone, PyNone))"
proof -
  from demo_first_fold obtain w' r where
    run: "train_expanding_window_grid_search demo_env demo_config demo_grid 0 0 demo_world
            = Inr (w', r)"
    by blast
  from driver_returns_empty_triple [OF run] have "r = (PyDict [], PyNone, PyNone)" .
  with run show ?thesis by blast
qed

section \<open>The size check decides whether a fold trains\<close>

text \<open>
  A fold whose sizes fit, with the hyperparameters present and a results file that holds a
  list: the slices are taken, their sizes are printed, every epoch of the budget is
  trained, and the record of the fold is appended to the file.
\<close>

lemma fold_train_run:
  assumes ds: "dataset st = Some ds"
    and sizes: "0 \<le> ts" "0 \<le> vs" "ts + vs \<le> int (length ds)"
    and cfg: "map_of (config st) ''BATCH_SIZE'' = Some bs" "map_of (config st) ''N_NODE'' = Some nn"
    and ps: "map_of ps ''N_HIST'' = Some nh" "map_of ps ''N_PRED'' = Some np"
      "map_of ps ''DROPOUT'' = Some dr" "map_of ps ''INITIAL_LR'' = Some lr"
      "map_of ps ''WEIGHT_DECAY'' = Some wd"
    and budget: "epoch_budget lr = Inr E"
    and log: "load_previous_results w = Inr (PyDict [(''Results'', PyList rs)])"
  shows "\<exists>a' w'. fold_train env st ps k r ts vs (a, w) = Inr (a', w') \<and>
           new_events w w' =
             Print_fold k (nat ts) r (nat vs) val_ratio # epoch_events E (grad_enabled w) E
               @ [Print_achieved (PyFloat (eval_mae env (E - 1))) E k] \<and>
           train_calls (new_events w w') = [0 ..< E] \<and>
           results_file w' = Json (PyDict [(''Results'',
              PyList (rs @ [result_record ps r (PyFloat (eval_mae env (E - 1))) (now env)]))])"
proof -
  have t: "collect (py_getitem ds) (py_range ts) = Inr (take (nat ts) ds)"
    using sizes by (intro train_subset_slice) simp_all
  have v: "collect (py_getitem ds) (py_range_from ts (ts + vs)) = Inr (take (nat vs) (drop (nat ts) ds))"
    using sizes by (intro val_subset_slice) simp_all
  have E: "0 < E" using budget by (rule epoch_budget_pos)
  define m where "m = PyFloat (eval_mae env (E - 1))"
  define n1 where "n1 = length (take (nat ts) ds)"
  define n2 where "n2 = length (take (nat vs) (drop (nat ts) ds))"
  define w1 where "w1 = emit (Print_fold k n1 r n2 val_ratio) w"
  define w2 where "w2 = w1\<lparr> events := events w1 @ epoch_events E (grad_enabled w1) E \<rparr>"
  define w3 where "w3 = emit (Print_achieved m E k) w2"
  define w4 where "w4 = w3\<lparr> results_file := Json (PyDict [(''Results'',
              PyList (rs @ [result_record ps r m (now env)]))]) \<rparr>"
  have n1: "n1 = nat ts" and n2: "n2 = nat vs"
    using sizes by (simp_all add: n1_def n2_def)
  have re: "run_epochs env E (w1, PyNone) = (w2, m)"
    unfolding w2_def m_def using E by (rule run_epochs_pair)
  have "load_previous_results w3 = load_previous_results w"
    by (rule load_previous_results_file) (simp add: w3_def w2_def w1_def emit_def)
  then have "load_previous_results w3 = Inr (PyDict [(''Results'', PyList rs)])"
    using log by simp
  then have wr: "write_result ps r m (now env) w3 = Inr w4"
    unfolding w4_def by (rule write_result_appends)
  have times: "py_float_times r m = Inr (float_mul r (eval_mae env (E - 1)))"
    by (simp add: py_float_times_def m_def)
  have run: "fold_train env st ps k r ts vs (a, w) =
      Inr (float_add a (float_mul r (eval_mae env (E - 1))), w4)"
    unfolding fold_train_def Let_def
    by (simp only: ds t v cfg ps budget py_lookup_def bindE_def sum.case option.case prod.case
        n1_def [symmetric] n2_def [symmetric] w1_def [symmetric] re w3_def [symmetric] times wr)
  have ev: "new_events w w4 =
              Print_fold k (nat ts) r (nat vs) val_ratio # epoch_events E (grad_enabled w) E
                @ [Print_achieved (PyFloat (eval_mae env (E - 1))) E k]"
    by (simp add: new_events_def w4_def w3_def w2_def w1_def emit_def n1 n2 m_def)
  have tc: "train_calls (new_events w w4) = [0 ..< E]"
    by (simp add: new_events_def w4_def w3_def w2_def w1_def emit_def train_calls_append
        train_calls_epoch_events)
  have "results_file w4 = Json (PyDict [(''Results'',
              PyList (rs @ [result_record ps r (PyFloat (eval_mae env (E - 1))) (now env)]))])"
    by (simp add: w4_def m_def)
  then show ?thesis
    using run ev tc by blast
qed

text \<open>
  Claim C3. In a fold the driver takes \<open>train_size\<close> and \<open>val_size\<close> as the floors of the
  products, in double precision, of the train ratio and of the validation ratio 0.1 with
  the number of graphs. When \<open>train_size + val_size\<close> exceeds the number of graphs the fold
  loop stops there: the message is the only thing printed, nothing is raised, no further
  fold is run, nothing is trained and the results file is as it was. Otherwise the fold
  goes on to slice and train: both slices lie inside the dataset, no index error is
  raised, and, the hyperparameters being present and the results file holding a list, the
  sizes of the two slices are printed, every epoch of the budget is trained, the record of
  the fold is appended to the file and the loop goes on to the next fold. So the fold
  trains if and only if the sizes fit. With ratio 0.9, 100 graphs give 90 and 10, and 99
  graphs give 89 and 9; both pass.
\<close>

theorem fold_size_check:
  assumes "dataset st = Some ds" and "num_graphs st = Some (length ds)" and "0 \<le> train_ratio"
  shows
    "split_size train_ratio (length ds) = \<lfloor>float_mul train_ratio (float_of_int (int (length ds)))\<rfloor> \<and>
     split_size val_ratio (length ds) = \<lfloor>float_mul val_ratio (float_of_int (int (length ds)))\<rfloor> \<and>
     (int (length ds) < split_size train_ratio (length ds) + split_size val_ratio (length ds) \<longrightarrow>
        fold_loop env st ps ((k, train_ratio) # rest) (a, w) = Inr (a, emit Print_size_error w) \<and>
        results_file (emit Print_size_error w) = results_file w \<and>
        new_events w (emit Print_size_error w) = [Print_size_error]) \<and>
     (split_size train_ratio (length ds) + split_size val_ratio (length ds) \<le> int (length ds) \<longrightarrow>
        fold_body env st ps (k, train_ratio) (a, w) =
          bindE (fold_train env st ps k train_ratio (split_size train_ratio (length ds))
                   (split_size val_ratio (length ds)) (a, w)) (\<lambda>s. Inr (s, Continue)) \<and>
        collect (py_getitem ds) (py_range (split_size train_ratio (length ds))) =
          Inr (take (nat (split_size train_ratio (length ds))) ds) \<and>
        collect (py_getitem ds)
            (py_range_from (split_size train_ratio (length ds))
               (split_size train_ratio (length ds) + split_size val_ratio (length ds))) =
          Inr (take (nat (split_size val_ratio (length ds)))
                 (drop (nat (split_size train_ratio (length ds))) ds))) \<and>
     (map_of (config st) ''BATCH_SIZE'' = Some bs \<and> map_of (config st) ''N_NODE'' = Some nn \<and>
      map_of ps ''N_HIST'' = Some nh \<and> map_of ps ''N_PRED'' = Some np \<and>
      map_of ps ''DROPOUT'' = Some dr \<and> map_of ps ''INITIAL_LR'' = Some lr \<and>
      map_of ps ''WEIGHT_DECAY'' = Some wd \<and> epoch_budget lr = Inr E \<and>
      load_previous_results w = Inr (PyDict [(''Results'', PyList rs)]) \<longrightarrow>
        (split_size train_ratio (length ds) + split_size val_ratio (length ds) \<le> int (length ds) \<longrightarrow>
           (\<exists>a' w'. fold_body env st ps (k, train_ratio) (a, w) = Inr ((a', w'), Continue) \<and>
              fold_loop env st ps ((k, train_ratio) # rest) (a, w)
                = fold_loop env st ps rest (a', w') \<and>
              new_events w w' =
                Print_fold k (nat (split_size train_ratio (length ds))) train_ratio
                    (nat (split_size val_ratio (length ds))) val_ratio
                  # epoch_events E (grad_enabled w) E
                  @ [Print_achieved (PyFloat (eval_mae env (E - 1))) E k] \<and>
              train_calls (new_events w w') = [0 ..< E] \<and>
              results_file w' = Json (PyDict [(''Results'',
                PyList (rs @ [result_record ps train_ratio (PyFloat (eval_mae env (E - 1)))
                                (now env)]))]))) \<and>
        ((\<exists>a' w' c. fold_body env st ps (k, train_ratio) (a, w) = Inr ((a', w'), c) \<and>
                    train_calls (new_events w w') \<noteq> [])
           \<longleftrightarrow> split_size train_ratio (length ds) + split_size val_ratio (length ds)
                 \<le> int (length ds))) \<and>
     fold_body env st ps (k, train_ratio) (a, w) \<noteq> Inl IndexError \<and>
     split_size (float_literal (9 / 10)) 100 + split_size val_ratio 100 = 100 \<and>
     split_size (float_literal (9 / 10)) 100 = 90 \<and> split_size val_ratio 100 = 10 \<and>
     split_size (float_literal (9 / 10)) 99 + split_size val_ratio 99 = 98 \<and>
     split_size (float_literal (9 / 10)) 99 = 89 \<and> split_size val_ratio 99 = 9"
proof -
  let ?n = "length ds"
  let ?ts = "split_size train_ratio ?n"
  let ?vs = "split_size val_ratio ?n"
  have ts: "0 \<le> ?ts" using assms(3) by (rule split_size_nonneg)
  have vs: "0 \<le> ?vs" using val_ratio_nonneg by (rule split_size_nonneg)
  have floors: "?ts = \<lfloor>float_mul train_ratio (float_of_int (int ?n))\<rfloor>"
    "?vs = \<lfloor>float_mul val_ratio (float_of_int (int ?n))\<rfloor>"
    using assms(3) val_ratio_nonneg by (simp_all add: split_size_is_floor)
  have stop_body: "fold_body env st ps (k, train_ratio) (a, w)
                     = Inr ((a, emit Print_size_error w), Break)"
    if "int ?n < ?ts + ?vs"
    using that by (simp add: fold_body_def assms(2) Let_def)
  have stop: "fold_loop env st ps ((k, train_ratio) # rest) (a, w) = Inr (a, emit Print_size_error w)"
    if "int ?n < ?ts + ?vs"
    using that by (simp add: stop_body bindE_def)
  have unchanged: "results_file (emit Print_size_error w) = results_file w"
    by (simp add: emit_def)
  have printed: "new_events w (emit Print_size_error w) = [Print_size_error]"
    by (simp add: new_events_def emit_def)
  have go: "fold_body env st ps (k, train_ratio) (a, w) =
              bindE (fold_train env st ps k train_ratio ?ts ?vs (a, w)) (\<lambda>s. Inr (s, Continue))"
    if "?ts + ?vs \<le> int ?n"
    using that by (simp add: fold_body_def assms(2) Let_def)
  have tr: "collect (py_getitem ds) (py_range ?ts) = Inr (take (nat ?ts) ds)"
    if "?ts + ?vs \<le> int ?n"
    using ts vs that by (intro train_subset_slice) simp_all
  have va: "collect (py_getitem ds) (py_range_from ?ts (?ts + ?vs)) =
              Inr (take (nat ?vs) (drop (nat ?ts) ds))"
    if "?ts + ?vs \<le> int ?n"
    using ts vs that by (intro val_subset_slice) simp_all
  have noidx: "fold_body env st ps (k, train_ratio) (a, w) \<noteq> Inl IndexError"
  proof (cases "?ts + ?vs \<le> int ?n")
    case True
    have "fold_train env st ps k train_ratio ?ts ?vs (a, w) \<noteq> Inl IndexError"
      using assms(1) ts vs True by (rule fold_train_no_IndexError)
    then show ?thesis
      by (simp add: go [OF True] bindE_Inl_iff)
  next
    case False
    then show ?thesis
      by (simp add: fold_body_def assms(2) Let_def)
  qed
  have trains: "\<exists>a' w'. fold_body env st ps (k, train_ratio) (a, w) = Inr ((a', w'), Continue) \<and>
              fold_loop env st ps ((k, train_ratio) # rest) (a, w)
                = fold_loop env st ps rest (a', w') \<and>
              new_events w w' =
                Print_fold k (nat ?ts) train_ratio (nat ?vs) val_ratio
                  # epoch_events E (grad_enabled w) E
                  @ [Print_achieved (PyFloat (eval_mae env (E - 1))) E k] \<and>
              train_calls (new_events w w') = [0 ..< E] \<and>
              results_file w' = Json (PyDict [(''Results'',
                PyList (rs @ [result_record ps train_ratio (PyFloat (eval_mae env (E - 1)))
                                (now env)]))])"
    if fits: "?ts + ?vs \<le> int ?n"
      and cfg: "map_of (config st) ''BATCH_SIZE'' = Some bs" "map_of (config st) ''N_NODE'' = Some nn"
      and hp: "map_of ps ''N_HIST'' = Some nh" "map_of ps ''N_PRED'' = Some np"
        "map_of ps ''DROPOUT'' = Some dr" "map_of ps ''INITIAL_LR'' = Some lr"
        "map_of ps ''WEIGHT_DECAY'' = Some wd"
      and budget: "epoch_budget lr = Inr E"
      and log: "load_previous_results w = Inr (PyDict [(''Results'', PyList rs)])"
  proof -
    from fold_train_run [OF assms(1) ts vs fits cfg hp budget log, of env k train_ratio a]
    obtain a' w' where
      run: "fold_train env st ps k train_ratio ?ts ?vs (a, w) = Inr (a', w')"
      and rest: "new_events w w' =
                Print_fold k (nat ?ts) train_ratio (nat ?vs) val_ratio
                  # epoch_events E (grad_enabled w) E
                  @ [Print_achieved (PyFloat (eval_mae env (E - 1))) E k]"
        "train_calls (new_events w w') = [0 ..< E]"
        "results_file w' = Json (PyDict [(''Results'',
                PyList (rs @ [result_record ps train_ratio (PyFloat (eval_mae env (E - 1)))
                                (now env)]))])"
      by blast
    have body: "fold_body env st ps (k, train_ratio) (a, w) = Inr ((a', w'), Continue)"
      by (simp add: go [OF fits] run bindE_def)
    then have "fold_loop env st ps ((k, train_ratio) # rest) (a, w)
                 = fold_loop env st ps rest (a', w')"
      by (simp add: bindE_def)
    with body rest show ?thesis by blast
  qed
  have decides: "(\<exists>a' w' c. fold_body env st ps (k, train_ratio) (a, w) = Inr ((a', w'), c) \<and>
                    train_calls (new_events w w') \<noteq> [])
                 \<longleftrightarrow> ?ts + ?vs \<le> int ?n"
    if cfg: "map_of (config st) ''BATCH_SIZE'' = Some bs" "map_of (config st) ''N_NODE'' = Some nn"
      and hp: "map_of ps ''N_HIST'' = Some nh" "map_of ps ''N_PRED'' = Some np"
        "map_of ps ''DROPOUT'' = Some dr" "map_of ps ''INITIAL_LR'' = Some lr"
        "map_of ps ''WEIGHT_DECAY'' = Some wd"
      and budget: "epoch_budget lr = Inr E"
      and log: "load_previous_results w = Inr (PyDict [(''Results'', PyList rs)])"
  proof (cases "?ts + ?vs \<le> int ?n")
    case True
    have "0 < E" using budget by (rule epoch_budget_pos)
    then have "[0 ..< E] \<noteq> []" by simp
    with trains [OF True cfg hp budget log] True show ?thesis
      by metis
  next
    case False
    then have "int ?n < ?ts + ?vs" by simp
    then have "fold_body env st ps (k, train_ratio) (a, w)
                 = Inr ((a, emit Print_size_error w), Break)"
      by (rule stop_body)
    moreover have "train_calls (new_events w (emit Print_size_error w)) = []"
      by (simp add: printed)
    ultimately show ?thesis
      using False by auto
  qed
  have nums: "split_size (float_literal (9 / 10)) 100 + split_size val_ratio 100 = 100"
    "split_size (float_literal (9 / 10)) 100 = 90" "split_size val_ratio 100 = 10"
    "split_size (float_literal (9 / 10)) 99 + split_size val_ratio 99 = 98"
    "split_size (float_literal (9 / 10)) 99 = 89" "split_size val_ratio 99 = 9"
    by (simp_all add: split_9_100 split_1_100 split_9_99 split_1_99)
  have viol: "int ?n < ?ts + ?vs \<longrightarrow>
        fold_loop env st ps ((k, train_ratio) # rest) (a, w) = Inr (a, emit Print_size_error w) \<and>
        results_file (emit Print_size_error w) = results_file w \<and>
        new_events w (emit Print_size_error w) = [Print_size_error]"
    using stop unchanged printed by blast
  have pass: "?ts + ?vs \<le> int ?n \<longrightarrow>
        fold_body env st ps (k, train_ratio) (a, w) =
          bindE (fold_train env st ps k train_ratio ?ts ?vs (a, w)) (\<lambda>s. Inr (s, Continue)) \<and>
        collect (py_getitem ds) (py_range ?ts) = Inr (take (nat ?ts) ds) \<and>
        collect (py_getitem ds) (py_range_from ?ts (?ts + ?vs)) =
          Inr (take (nat ?vs) (drop (nat ?ts) ds))"
    using go tr va by blast
  have ready: "map_of (config st) ''BATCH_SIZE'' = Some bs \<and> map_of (config st) ''N_NODE'' = Some nn \<and>
      map_of ps ''N_HIST'' = Some nh \<and> map_of ps ''N_PRED'' = Some np \<and>
      map_of ps ''DROPOUT'' = Some dr \<and> map_of ps ''INITIAL_LR'' = Some lr \<and>
      map_of ps ''WEIGHT_DECAY'' = Some wd \<and> epoch_budget lr = Inr E \<and>
      load_previous_results w = Inr (PyDict [(''Results'', PyList rs)]) \<longrightarrow>
        (?ts + ?vs \<le> int ?n \<longrightarrow>
           (\<exists>a' w'. fold_body env st ps (k, train_ratio) (a, w) = Inr ((a', w'), Continue) \<and>
              fold_loop env st ps ((k, train_ratio) # rest) (a, w)
                = fold_loop env st ps rest (a', w') \<and>
              new_events w w' =
                Print_fold k (nat ?ts) train_ratio (nat ?vs) val_ratio
                  # epoch_events E (grad_enabled w) E
                  @ [Print_achieved (PyFloat (eval_mae env (E - 1))) E k] \<and>
              train_calls (new_events w w') = [0 ..< E] \<and>
              results_file w' = Json (PyDict [(''Results'',
                PyList (rs @ [result_record ps train_ratio (PyFloat (eval_mae env (E - 1)))
                                (now env)]))]))) \<and>
        ((\<exists>a' w' c. fold_body env st ps (k, train_ratio) (a, w) = Inr ((a', w'), c) \<and>
                    train_calls (new_events w w') \<noteq> [])
           \<longleftrightarrow> ?ts + ?vs \<le> int ?n)"
  proof (intro impI conjI)
    assume h: "map_of (config st) ''BATCH_SIZE'' = Some bs \<and> map_of (config st) ''N_NODE'' = Some nn \<and>
      map_of ps ''N_HIST'' = Some nh \<and> map_of ps ''N_PRED'' = Some np \<and>
      map_of ps ''DROPOUT'' = Some dr \<and> map_of ps ''INITIAL_LR'' = Some lr \<and>
      map_of ps ''WEIGHT_DECAY'' = Some wd \<and> epoch_budget lr = Inr E \<and>
      load_previous_results w = Inr (PyDict [(''Results'', PyList rs)])"
    then have cfg: "map_of (config st) ''BATCH_SIZE'' = Some bs"
        "map_of (config st) ''N_NODE'' = Some nn"
      and hp: "map_of ps ''N_HIST'' = Some nh" "map_of ps ''N_PRED'' = Some np"
        "map_of ps ''DROPOUT'' = Some dr" "map_of ps ''INITIAL_LR'' = Some lr"
        "map_of ps ''WEIGHT_DECAY'' = Some wd"
      and budget: "epoch_budget lr = Inr E"
      and log: "load_previous_results w = Inr (PyDict [(''Results'', PyList rs)])"
      by simp_all
    show "(\<exists>a' w' c. fold_body env st ps (k, train_ratio) (a, w) = Inr ((a', w'), c) \<and>
                    train_calls (new_events w w') \<noteq> [])
           \<longleftrightarrow> ?ts + ?vs \<le> int ?n"
      using cfg hp budget log by (rule decides)
    assume fits: "?ts + ?vs \<le> int ?n"
    show "\<exists>a' w'. fold_body env st ps (k, train_ratio) (a, w) = Inr ((a', w'), Continue) \<and>
              fold_loop env st ps ((k, train_ratio) # rest) (a, w)
                = fold_loop env st ps rest (a', w') \<and>
              new_events w w' =
                Print_fold k (nat ?ts) train_ratio (nat ?vs) val_ratio
                  # epoch_events E (grad_enabled w) E
                  @ [Print_achieved (PyFloat (eval_mae env (E - 1))) E k] \<and>
              train_calls (new_events w w') = [0 ..< E] \<and>
              results_file w' = Json (PyDict [(''Results'',
                PyList (rs @ [result_record ps train_ratio (PyFloat (eval_mae env (E - 1)))
                                (now env)]))])"
      using fits cfg hp budget log by (rule trains)
  qed
  show ?thesis
    by (rule conjI [OF floors(1) conjI [OF floors(2) conjI [OF viol conjI [OF pass
          conjI [OF ready conjI [OF noidx conjI [OF nums(1) conjI [OF nums(2)
          conjI [OF nums(3) conjI [OF nums(4) conjI [OF nums(5) nums(6)]]]]]]]]]]])
qed

theorem fold_size_check_witness:
  "fold_loop demo_env demo_state demo_params [(0, 1), (1, float_literal (7 / 10))] (0, demo_world)
     = Inr (0, emit Print_size_error demo_world) \<and>
   new_events demo_world (emit Print_size_error demo_world) = [Print_size_error] \<and>
   collect (py_getitem (replicate 10 demo_graph)) (py_range 9) = Inr (replicate 9 demo_graph) \<and>
   collect (py_getitem (replicate 10 demo_graph)) (py_range_from 9 10) = Inr [demo_graph] \<and>
   fold_body demo_env demo_state demo_params (0, float_literal (9 / 10)) (0, demo_world)
     \<noteq> Inl IndexError \<and>
   (\<exists>a' w'. fold_body demo_env demo_state demo_params (0, float_literal (9 / 10)) (0, demo_world)
              = Inr ((a', w'), Continue) \<and>
            new_events demo_world w' =
              Print_fold 0 9 (float_literal (9 / 10)) 1 val_ratio # epoch_events 50 True 50
                @ [Print_achieved (PyFloat (1 / 2)) 50 0] \<and>
            train_calls (new_events demo_world w') = [0 ..< 50] \<and>
            results_file w' = Json (PyDict [(''Results'',
              PyList [result_record demo_params (float_literal (9 / 10)) (PyFloat (1 / 2))
                        ''2025-03-01 12:00:00.000000''])]))"
proof -
  have d: "dataset demo_state = Some (replicate 10 demo_graph)"
    and n: "num_graphs demo_state = Some (length (replicate 10 demo_graph))"
    by (simp_all add: demo_state_def)
  have one: "(0::rat) \<le> 1" by simp
  have nine: "0 \<le> float_literal (9 / 10)"
    unfolding float_literal_def by (rule round_to_double_nonneg) simp
  have len: "length (replicate 10 demo_graph) = 10" by simp
  have s1: "split_size 1 10 = 10" by code_simp
  have s2: "split_size val_ratio 10 = 1" by code_simp
  have s3: "split_size (float_literal (9 / 10)) 10 = 9" by code_simp
  have over: "int 10 < 10 + 1" and fits: "(9::int) + 1 \<le> int 10" by simp_all
  have nat9: "nat 9 = 9" "nat 1 = 1" by simp_all
  have tk: "take 9 (replicate 10 demo_graph) = replicate 9 demo_graph"
    "take 1 (drop 9 (replicate 10 demo_graph)) = [demo_graph]"
    by simp_all
  have mae: "eval_mae demo_env (50 - 1) = 1 / 2" and time: "now demo_env = ''2025-03-01 12:00:00.000000''"
    by (simp_all add: demo_env_def)
  have mode: "grad_enabled demo_world = True"
    by (simp add: demo_world_def)
  have nil: "[] @ [x] = [x]" for x :: pyval by simp
  have ready: "map_of (config demo_state) ''BATCH_SIZE'' = Some (PyInt 50) \<and>
      map_of (config demo_state) ''N_NODE'' = Some (PyInt 4) \<and>
      map_of demo_params ''N_HIST'' = Some (PyInt 12) \<and>
      map_of demo_params ''N_PRED'' = Some (PyInt 9) \<and>
      map_of demo_params ''DROPOUT'' = Some (PyFloat (float_literal (2 / 10))) \<and>
      map_of demo_params ''INITIAL_LR'' = Some (PyFloat (float_literal (5 / 10 ^ 3))) \<and>
      map_of demo_params ''WEIGHT_DECAY'' = Some (PyFloat (float_literal (5 / 10 ^ 5))) \<and>
      epoch_budget (PyFloat (float_literal (5 / 10 ^ 3))) = Inr 50 \<and>
      load_previous_results demo_world = Inr (PyDict [(''Results'', PyList [])])"
    unfolding demo_budget
    by (simp add: demo_state_def demo_params_def load_previous_results_def demo_world_def)
  note A = fold_size_check [OF d n one, where env = demo_env and ps = demo_params and k = 0
        and rest = "[(1, float_literal (7 / 10))]" and a = 0 and w = demo_world,
        unfolded len s1 s2]
  note B = fold_size_check [OF d n nine, where env = demo_env and ps = demo_params and k = 0
        and rest = "[]" and a = 0 and w = demo_world and bs = "PyInt 50" and nn = "PyInt 4"
        and nh = "PyInt 12" and np = "PyInt 9" and dr = "PyFloat (float_literal (2 / 10))"
        and lr = "PyFloat (float_literal (5 / 10 ^ 3))"
        and wd = "PyFloat (float_literal (5 / 10 ^ 5))" and E = 50 and rs = "[]",
        unfolded len s2 s3 nat9 tk mae time mode nil]
  from A over have 1: "fold_loop demo_env demo_state demo_params
      [(0, 1), (1, float_literal (7 / 10))] (0, demo_world) = Inr (0, emit Print_size_error demo_world)"
    "new_events demo_world (emit Print_size_error demo_world) = [Print_size_error]"
    by blast+
  from B fits have 2:
    "collect (py_getitem (replicate 10 demo_graph)) (py_range 9) = Inr (replicate 9 demo_graph)"
    "collect (py_getitem (replicate 10 demo_graph)) (py_range_from 9 (9 + 1)) = Inr [demo_graph]"
    "fold_body demo_env demo_state demo_params (0, float_literal (9 / 10)) (0, demo_world)
       \<noteq> Inl IndexError"
    by blast+
  from B fits ready have 3:
    "\<exists>a' w'. fold_body demo_env demo_state demo_params (0, float_literal (9 / 10)) (0, demo_world)
              = Inr ((a', w'), Continue) \<and>
            new_events demo_world w' =
              Print_fold 0 9 (float_literal (9 / 10)) 1 val_ratio # epoch_events 50 True 50
                @ [Print_achieved (PyFloat (1 / 2)) 50 0] \<and>
            train_calls (new_events demo_world w') = [0 ..< 50] \<and>
            results_file w' = Json (PyDict [(''Results'',
              PyList [result_record demo_params (float_literal (9 / 10)) (PyFloat (1 / 2))
                        ''2025-03-01 12:00:00.000000''])])"
    by blast
  have ten: "(9::int) + 1 = 10" by simp
  from 1 2 [unfolded ten] 3 show ?thesis by blast
qed

section \<open>Facts about the plotted window\<close>

lemma days_to_show_eq: "days_to_show num_days total_days = plotted_days num_days total_days"
  by (cases num_days) (auto simp: days_to_show_def plotted_days_def)

lemma plotted_days_nonneg:
  assumes "0 \<le> total_days" and "\<And>d. num_days = Some d \<Longrightarrow> 0 \<le> d"
  shows "0 \<le> plotted_days num_days total_days"
  using assms by (cases num_days) (auto simp: plotted_days_def)

lemma plotted_days_le: "plotted_days num_days total_days \<le> total_days"
  by (cases num_days) (auto simp: plotted_days_def)

lemma window_fits:
  fixes spd :: int
  assumes "0 < spd" and "k \<le> n div spd"
  shows "k * spd \<le> n"
proof -
  have "k * spd \<le> (n div spd) * spd"
    using assms by (simp add: mult_right_mono)
  also have "\<dots> \<le> n"
    using assms(1) by (metis mult.commute pos_mod_sign mult_div_mod_eq le_add_same_cancel1)
  finally show ?thesis .
qed

lemma length_py_slice_to:
  assumes "0 \<le> stop" and "stop \<le> int (length xs)"
  shows "int (length (py_slice_to xs stop)) = stop"
  using assms by (auto simp: py_slice_to_def min_def)

lemma length_py_range: "int (length (py_range stop)) = max 0 stop"
  by (simp add: py_range_def)

lemma end_idx_bounds:
  fixes spd :: int and y_truth :: "'a list"
  assumes spd: "0 < spd"
    and days: "\<And>d. num_days = Some d \<Longrightarrow> 0 \<le> d"
  shows "end_idx_of spd y_truth num_days
           = plotted_days num_days (int (length y_truth) div spd) * spd"
    and "0 \<le> end_idx_of spd y_truth num_days"
    and "end_idx_of spd y_truth num_days \<le> int (length y_truth)"
proof -
  show eq: "end_idx_of spd y_truth num_days
              = plotted_days num_days (int (length y_truth) div spd) * spd"
    by (simp add: end_idx_of_def days_to_show_eq)
  have td: "0 \<le> int (length y_truth) div spd"
    using spd by (simp add: pos_imp_zdiv_nonneg_iff)
  have "0 \<le> plotted_days num_days (int (length y_truth) div spd)"
    using td days by (rule plotted_days_nonneg)
  then show "0 \<le> end_idx_of spd y_truth num_days"
    using spd by (simp add: eq)
  show "end_idx_of spd y_truth num_days \<le> int (length y_truth)"
    unfolding eq using spd plotted_days_le by (rule window_fits)
qed

lemma plot_prediction_returned:
  assumes "plot_prediction spd y_truth y_pred num_days = Inr pd"
  shows "window_length pd (max 0 (end_idx_of spd y_truth num_days))"
  using assms
  by (auto simp: plot_prediction_def bindE_Inr_iff Let_def py_floordiv_def plt_plot_def
      window_length_def end_idx_of_def length_py_range [symmetric]
      split: if_splits)

lemma plot_prediction_full_returned:
  assumes "plot_prediction_full spd f y_truth y_preds num_days = Inr pd"
  shows "int (length (t_axis pd)) = max 0 (end_idx_of spd y_truth num_days) \<and>
         int (length (truth_series pd)) = max 0 (end_idx_of spd y_truth num_days)"
  using assms
  by (auto simp: plot_prediction_full_def bindE_Inr_iff Let_def py_floordiv_def
      interp1d_cubic_def end_idx_of_def length_py_range [symmetric]
      split: if_splits)

lemma plot_prediction_returns:
  fixes spd :: int
  assumes "0 < spd" and "\<And>d. num_days = Some d \<Longrightarrow> 0 \<le> d"
    and "length y_pred = length y_truth"
  shows "\<exists>pd. plot_prediction spd y_truth y_pred num_days = Inr pd"
proof -
  let ?n = "end_idx_of spd y_truth num_days"
  have n0: "0 \<le> ?n"
    using assms(1,2) by (rule end_idx_bounds(2))
  have nle: "?n \<le> int (length y_truth)"
    using assms(1,2) by (rule end_idx_bounds(3))
  have t: "length (py_slice_to y_truth ?n) = length (py_range ?n)"
    using n0 nle by (simp add: py_slice_to_def py_range_def)
  have p: "length (py_slice_to y_pred ?n) = length (py_range ?n)"
    using n0 nle assms(3) by (simp add: py_slice_to_def py_range_def)
  show ?thesis
    using assms(1) t p
    by (simp add: plot_prediction_def bindE_def py_floordiv_def plt_plot_def Let_def
        end_idx_of_def)
qed

lemma collect_all_return:
  assumes "\<And>x. x \<in> set xs \<Longrightarrow> f x = Inr (g x)"
  shows "collect f xs = Inr (map g xs)"
  using assms by (induction xs) (simp_all add: bindE_def)
lemma shifted_prediction_drawn:
  assumes n: "12 \<le> n" "n \<le> int (length y_truth)"
    and f: "0 \<le> f"
    and i: "i < 9"
    and ys: "9 \<le> length y_preds" "\<And>y. y \<in> set y_preds \<Longrightarrow> length y = length y_truth"
  shows "shifted_prediction f (py_range n) (map (\<lambda>y. py_slice_to y n) y_preds) i
           = Inr [(take (nat n - i) (y_preds ! i), (nat n - i) * nat f)]"
proof -
  define st where "st = drop i (py_range n)"
  define sy where "sy = py_slice_to (py_slice_to (y_preds ! i) n) (int (length st))"
  have len_t: "length st = nat n - i"
    by (simp add: st_def py_range_def)
  have more: "1 < length st" "4 \<le> length st"
    using n(1) i by (simp_all add: len_t)
  have il: "i < length y_preds"
    using i ys(1) by simp
  then have "y_preds ! i \<in> set y_preds"
    by simp
  then have ly: "length (y_preds ! i) = length y_truth"
    by (rule ys(2))
  have get: "py_getitem (map (\<lambda>y. py_slice_to y n) y_preds) (int i)
               = Inr (py_slice_to (y_preds ! i) n)"
    using il by (simp add: py_getitem_def)
  have sy: "sy = take (nat n - i) (y_preds ! i)"
    using n by (simp add: sy_def len_t py_slice_to_def min_def)
  have "length sy = length st"
    using n ly by (simp add: sy len_t)
  then have ic: "interp1d_cubic st sy = Inr ()"
    using more by (simp add: interp1d_cubic_def)
  have "0 \<le> int (length st) * f"
    using f by (intro mult_nonneg_nonneg) simp_all
  then have lin: "np_linspace (int (length st) * f) = Inr ((nat n - i) * nat f)"
    by (simp add: np_linspace_def not_less len_t nat_mult_distrib)
  have "shifted_prediction f (py_range n) (map (\<lambda>y. py_slice_to y n) y_preds) i
          = Inr [(sy, (nat n - i) * nat f)]"
    unfolding shifted_prediction_def Let_def st_def [symmetric]
    by (simp only: get bindE_def sum.case sy_def [symmetric] more if_True ic lin)
  then show ?thesis
    by (simp only: sy)
qed

lemma plot_prediction_full_returns:
  fixes spd :: int
  assumes spd: "0 < spd" and days: "\<And>d. num_days = Some d \<Longrightarrow> 0 \<le> d"
    and n: "12 \<le> end_idx_of spd y_truth num_days"
    and f: "0 \<le> f"
    and ys: "9 \<le> length y_preds" "\<And>y. y \<in> set y_preds \<Longrightarrow> length y = length y_truth"
  shows "plot_prediction_full spd f y_truth y_preds num_days =
           Inr \<lparr> t_axis = py_range (end_idx_of spd y_truth num_days),
                 truth_series = take (nat (end_idx_of spd y_truth num_days)) y_truth,
                 pred_series = map (\<lambda>i. take (nat (end_idx_of spd y_truth num_days) - i)
                                         (y_preds ! i)) [0 ..< 9],
                 days_shown = days_to_show num_days (int (length y_truth) div spd),
                 curve_points = nat (end_idx_of spd y_truth num_days) * nat f
                   # map (\<lambda>i. (nat (end_idx_of spd y_truth num_days) - i) * nat f) [0 ..< 9] \<rparr>"
proof -
  define m where "m = end_idx_of spd y_truth num_days"
  have m: "days_to_show num_days (int (length y_truth) div spd) * spd = m"
    by (simp add: m_def end_idx_of_def)
  have nle: "m \<le> int (length y_truth)"
    unfolding m_def using spd days by (rule end_idx_bounds(3))
  have n': "12 \<le> m" using n by (simp add: m_def)
  have "0 \<le> m * f"
    using n' f by (intro mult_nonneg_nonneg) simp_all
  then have lin: "np_linspace (m * f) = Inr (nat m * nat f)"
    using n' by (simp add: np_linspace_def not_less nat_mult_distrib)
  have tr: "py_slice_to y_truth m = take (nat m) y_truth"
    using n' by (simp add: py_slice_to_def)
  have it: "interp1d_cubic (py_range m) (take (nat m) y_truth) = Inr ()"
    using n' nle by (simp add: interp1d_cubic_def py_range_def)
  have loop: "collect (shifted_prediction f (py_range m) (map (\<lambda>y. py_slice_to y m) y_preds))
                [0 ..< 9]
              = Inr (map (\<lambda>i. [(take (nat m - i) (y_preds ! i), (nat m - i) * nat f)]) [0 ..< 9])"
    by (rule collect_all_return) (simp add: shifted_prediction_drawn [OF n' nle f _ ys])
  have flat: "map fst (concat (map (\<lambda>i. [(take (nat m - i) (y_preds ! i), (nat m - i) * nat f)])
                                   [0 ..< 9]))
                = map (\<lambda>i. take (nat m - i) (y_preds ! i)) [0 ..< 9]"
    "map snd (concat (map (\<lambda>i. [(take (nat m - i) (y_preds ! i), (nat m - i) * nat f)])
                                   [0 ..< 9]))
                = map (\<lambda>i. (nat m - i) * nat f) [0 ..< 9]"
    by (simp_all add: map_concat comp_def)
  have nz: "spd \<noteq> 0" using spd by simp
  show ?thesis
    unfolding plot_prediction_full_def Let_def m m_def [symmetric]
    by (simp only: py_floordiv_def nz if_False bindE_def sum.case m lin tr it loop flat)
qed

lemma plot_prediction_full_negative:
  fixes spd :: int
  assumes "0 < spd" and "d < 0"
  shows "plot_prediction_full spd f y_truth y_preds (Some d) = Inl ValueError"
proof -
  have td: "0 \<le> int (length y_truth) div spd"
    using assms(1) by (simp add: pos_imp_zdiv_nonneg_iff)
  then have "days_to_show (Some d) (int (length y_truth) div spd) = d"
    using assms(2) by (simp add: days_to_show_def)
  moreover have "d * spd < 0"
    using assms by (simp add: mult_neg_pos)
  ultimately show ?thesis
    using assms(1)
    by (simp add: plot_prediction_full_def Let_def py_floordiv_def bindE_def np_linspace_def
        interp1d_cubic_def py_range_def)
qed

lemma demo_end_idx: "end_idx_of 24 demo_truth (Some 5) = 48"
  by (simp add: end_idx_of_def days_to_show_def demo_truth_def)

lemma demo_lengths: "map (\<lambda>i. nat 48 - i) [0 ..< 9] = [48, 47, 46, 45, 44, 43, 42, 41, 40]"
  by code_simp

lemma demo_series:
  "map (\<lambda>i. take (nat 48 - i) (demo_preds ! i)) [0 ..< 9]
     = [replicate 48 1, replicate 47 1, replicate 46 1, replicate 45 1, replicate 44 1,
        replicate 43 1, replicate 42 1, replicate 41 1, replicate 40 1]"
  by code_simp

lemma demo_points:
  "nat 48 * nat 10 # map (\<lambda>i. (nat 48 - i) * nat 10) [0 ..< 9]
     = [480, 480, 470, 460, 450, 440, 430, 420, 410, 400]"
  by code_simp

lemma demo_full_plot_drawn:
  "plot_prediction_full 24 10 demo_truth demo_preds (Some 5) = Inr demo_full_plot"
proof -
  have spd: "(0::int) < 24" and f: "(0::int) \<le> 10" by simp_all
  have days: "\<And>d. Some (5::int) = Some d \<Longrightarrow> 0 \<le> d" by simp
  have n: "12 \<le> end_idx_of 24 demo_truth (Some 5)"
    by (simp add: demo_end_idx)
  have ys: "9 \<le> length demo_preds"
    "\<And>y. y \<in> set demo_preds \<Longrightarrow> length y = length demo_truth"
    by (simp_all add: demo_preds_def demo_truth_def)
  have tr: "take (nat 48) demo_truth = replicate 48 0"
    by (simp add: demo_truth_def)
  have ds: "days_to_show (Some 5) (int (length demo_truth) div 24) = 2"
    by (simp add: days_to_show_def demo_truth_def)
  have "plot_prediction_full 24 10 demo_truth demo_preds (Some 5) =
           Inr \<lparr> t_axis = py_range (end_idx_of 24 demo_truth (Some 5)),
                 truth_series = take (nat (end_idx_of 24 demo_truth (Some 5))) demo_truth,
                 pred_series = map (\<lambda>i. take (nat (end_idx_of 24 demo_truth (Some 5)) - i)
                                         (demo_preds ! i)) [0 ..< 9],
                 days_shown = days_to_show (Some 5) (int (length demo_truth) div 24),
                 curve_points = nat (end_idx_of 24 demo_truth (Some 5)) * nat 10
                   # map (\<lambda>i. (nat (end_idx_of 24 demo_truth (Some 5)) - i) * nat 10) [0 ..< 9] \<rparr>"
    using spd days n f ys by (rule plot_prediction_full_returns)
  then show ?thesis
    unfolding demo_end_idx demo_series demo_points tr ds demo_full_plot_def .
qed

text \<open>
  Claim C10, as amended. Whenever \<open>plot_prediction\<close> draws, its time axis, truth series and
  prediction series all have the length \<open>end_idx\<close> (or none, if that is negative), and
  whenever \<open>plot_prediction_full\<close> draws, its time axis and truth series do. For a day
  request that is \<open>None\<close> or not negative, \<open>end_idx\<close> is \<open>total_days * SLOTS_PER_DAY\<close> when
  \<open>num_days\<close> is \<open>None\<close> and \<open>min num_days total_days * SLOTS_PER_DAY\<close> otherwise, a whole
  number of days that the data holds: a trailing partial day is cut and a request beyond
  the data is clamped. For such a request \<open>plot_prediction\<close> draws, and
  \<open>plot_prediction_full\<close> draws when the window has at least 12 slots and there are nine
  horizon steps; the prediction series of step \<open>i\<close> is then shifted and has \<open>end_idx - i\<close>
  slots, and the curves are drawn through \<open>fine_grained_factor\<close> points for each slot of
  their series. For a negative request \<open>plot_prediction_full\<close> raises.
\<close>

theorem plotted_window_whole_days:
  fixes spd :: int
  assumes "0 < spd"
  shows
    "((\<forall>d. num_days = Some d \<longrightarrow> 0 \<le> d) \<longrightarrow>
        end_idx_of spd y_truth num_days
          = plotted_days num_days (int (length y_truth) div spd) * spd \<and>
        0 \<le> end_idx_of spd y_truth num_days \<and>
        end_idx_of spd y_truth num_days \<le> int (length y_truth)) \<and>
     (\<forall>pd. plot_prediction spd y_truth y_pred num_days = Inr pd \<longrightarrow>
        window_length pd (max 0 (end_idx_of spd y_truth num_days))) \<and>
     (\<forall>pd. plot_prediction_full spd f y_truth y_preds num_days = Inr pd \<longrightarrow>
        int (length (t_axis pd)) = max 0 (end_idx_of spd y_truth num_days) \<and>
        int (length (truth_series pd)) = max 0 (end_idx_of spd y_truth num_days)) \<and>
     ((\<forall>d. num_days = Some d \<longrightarrow> 0 \<le> d) \<and> length y_pred = length y_truth \<longrightarrow>
        (\<exists>pd. plot_prediction spd y_truth y_pred num_days = Inr pd)) \<and>
     ((\<forall>d. num_days = Some d \<longrightarrow> 0 \<le> d) \<and> 12 \<le> end_idx_of spd y_truth num_days \<and> 0 \<le> f \<and>
      9 \<le> length y_preds \<and> (\<forall>y \<in> set y_preds. length y = length y_truth) \<longrightarrow>
        (\<exists>pd. plot_prediction_full spd f y_truth y_preds num_days = Inr pd \<and>
              map length (pred_series pd)
                = map (\<lambda>i. nat (end_idx_of spd y_truth num_days) - i) [0 ..< 9] \<and>
              curve_points pd
                = nat (end_idx_of spd y_truth num_days) * nat f
                  # map (\<lambda>i. (nat (end_idx_of spd y_truth num_days) - i) * nat f) [0 ..< 9])) \<and>
     (\<forall>d. num_days = Some d \<and> d < 0 \<longrightarrow>
        plot_prediction_full spd f y_truth y_preds num_days = Inl ValueError)"
proof -
  let ?n = "end_idx_of spd y_truth num_days"
  have a: "?n = plotted_days num_days (int (length y_truth) div spd) * spd \<and> 0 \<le> ?n \<and>
           ?n \<le> int (length y_truth)"
    if "\<forall>d. num_days = Some d \<longrightarrow> 0 \<le> d"
  proof -
    have days': "\<And>d. num_days = Some d \<Longrightarrow> 0 \<le> d" using that by simp
    have "?n = plotted_days num_days (int (length y_truth) div spd) * spd"
      using assms days' by (rule end_idx_bounds(1))
    moreover have "0 \<le> ?n"
      using assms days' by (rule end_idx_bounds(2))
    moreover have "?n \<le> int (length y_truth)"
      using assms days' by (rule end_idx_bounds(3))
    ultimately show ?thesis by simp
  qed
  have b: "window_length pd (max 0 ?n)"
    if "plot_prediction spd y_truth y_pred num_days = Inr pd" for pd
    using that by (rule plot_prediction_returned)
  have c: "int (length (t_axis pd)) = max 0 ?n \<and> int (length (truth_series pd)) = max 0 ?n"
    if "plot_prediction_full spd f y_truth y_preds num_days = Inr pd" for pd
    using that by (rule plot_prediction_full_returned)
  have d: "\<exists>pd. plot_prediction spd y_truth y_pred num_days = Inr pd"
    if "\<forall>d. num_days = Some d \<longrightarrow> 0 \<le> d" and "length y_pred = length y_truth"
    using assms that by (intro plot_prediction_returns) simp_all
  have e: "\<exists>pd. plot_prediction_full spd f y_truth y_preds num_days = Inr pd \<and>
              map length (pred_series pd) = map (\<lambda>i. nat ?n - i) [0 ..< 9] \<and>
              curve_points pd = nat ?n * nat f # map (\<lambda>i. (nat ?n - i) * nat f) [0 ..< 9]"
    if days: "\<forall>d. num_days = Some d \<longrightarrow> 0 \<le> d" and n: "12 \<le> ?n" and f: "0 \<le> f"
      and ys: "9 \<le> length y_preds" "\<forall>y \<in> set y_preds. length y = length y_truth"
  proof -
    have days': "\<And>d. num_days = Some d \<Longrightarrow> 0 \<le> d" using days by simp
    have ys': "\<And>y. y \<in> set y_preds \<Longrightarrow> length y = length y_truth" using ys(2) by simp
    have le: "?n \<le> int (length y_truth)"
      using assms days' by (rule end_idx_bounds(3))
    have "length (take (nat ?n - i) (y_preds ! i)) = nat ?n - i" if "i < 9" for i
    proof -
      have "y_preds ! i \<in> set y_preds" using that ys(1) by simp
      then have "length (y_preds ! i) = length y_truth" by (rule ys')
      then show ?thesis using le by simp
    qed
    then have "map length (map (\<lambda>i. take (nat ?n - i) (y_preds ! i)) [0 ..< 9])
                 = map (\<lambda>i. nat ?n - i) [0 ..< 9]"
      by (simp del: length_take)
    moreover have "plot_prediction_full spd f y_truth y_preds num_days =
           Inr \<lparr> t_axis = py_range ?n,
                 truth_series = take (nat ?n) y_truth,
                 pred_series = map (\<lambda>i. take (nat ?n - i) (y_preds ! i)) [0 ..< 9],
                 days_shown = days_to_show num_days (int (length y_truth) div spd),
                 curve_points = nat ?n * nat f # map (\<lambda>i. (nat ?n - i) * nat f) [0 ..< 9] \<rparr>"
      using assms days' n f ys(1) ys' by (rule plot_prediction_full_returns)
    ultimately show ?thesis
      by (simp del: length_take)
  qed
  have g: "plot_prediction_full spd f y_truth y_preds num_days = Inl ValueError"
    if "num_days = Some d" and "d < 0" for d
    using assms that by (simp add: plot_prediction_full_negative)
  show ?thesis
    using a b c d e g by blast
qed

theorem plotted_window_whole_days_witness:
  "end_idx_of 24 demo_truth (Some 5) = 48 \<and>
   (\<exists>pd. plot_prediction 24 demo_truth (replicate 50 1) (Some 5) = Inr pd \<and> window_length pd 48) \<and>
   (\<exists>pd. plot_prediction_full 24 10 demo_truth demo_preds (Some 5) = Inr pd \<and>
         int (length (t_axis pd)) = 48 \<and> int (length (truth_series pd)) = 48 \<and>
         map length (pred_series pd) = [48, 47, 46, 45, 44, 43, 42, 41, 40] \<and>
         curve_points pd = [480, 480, 470, 460, 450, 440, 430, 420, 410, 400]) \<and>
   plot_prediction_full 24 10 demo_truth demo_preds (Some (- 1)) = Inl ValueError"
proof -
  have spd: "(0::int) < 24" by simp
  have days: "\<forall>d. Some (5::int) = Some d \<longrightarrow> 0 \<le> d" by simp
  have len: "length (replicate 50 (1::int)) = length demo_truth"
    by (simp add: demo_truth_def)
  have ys: "9 \<le> length demo_preds" "\<forall>y \<in> set demo_preds. length y = length demo_truth"
    by (simp_all add: demo_preds_def demo_truth_def)
  have big: "12 \<le> end_idx_of 24 demo_truth (Some 5)" and f: "(0::int) \<le> 10"
    by (simp_all add: demo_end_idx)
  have neg: "Some (- 1 :: int) = Some (- 1) \<and> (- 1 :: int) < 0" by simp
  note A = plotted_window_whole_days [OF spd, of "Some 5" demo_truth "replicate 50 1" 10 demo_preds]
  note B = plotted_window_whole_days [OF spd, of "Some (- 1)" demo_truth "replicate 50 1" 10
      demo_preds]
  from A days len obtain pd where
    1: "plot_prediction 24 demo_truth (replicate 50 1) (Some 5) = Inr pd"
    by blast
  with A have 2: "window_length pd (max 0 (end_idx_of 24 demo_truth (Some 5)))"
    by blast
  from A days big f ys obtain pd' where
    3: "plot_prediction_full 24 10 demo_truth demo_preds (Some 5) = Inr pd'"
    and 4: "map length (pred_series pd')
              = map (\<lambda>i. nat (end_idx_of 24 demo_truth (Some 5)) - i) [0 ..< 9]"
      "curve_points pd'
         = nat (end_idx_of 24 demo_truth (Some 5)) * nat 10
           # map (\<lambda>i. (nat (end_idx_of 24 demo_truth (Some 5)) - i) * nat 10) [0 ..< 9]"
    by blast
  from A 3 have 5: "int (length (t_axis pd')) = max 0 (end_idx_of 24 demo_truth (Some 5))"
    "int (length (truth_series pd')) = max 0 (end_idx_of 24 demo_truth (Some 5))"
    by blast+
  from B neg have 6: "plot_prediction_full 24 10 demo_truth demo_preds (Some (- 1)) = Inl ValueError"
    by blast
  from 1 2 3 4 5 6 show ?thesis
    unfolding demo_end_idx demo_lengths demo_points by auto
qed

text \<open>
  The claim as it was stated fails: of 50 slots at 24 a day, with five days asked for,
  \<open>plot_prediction_full\<close> draws prediction series of 48, 47, and so on down to 40 slots,
  and only the first is the whole number of days the claim gives for each; the curves
  themselves have ten points for each slot. And for a request of minus one day
  \<open>plot_prediction\<close> draws nothing at all: it raises.
\<close>

theorem plotted_window_whole_days_counterexample:
  "plot_prediction_full 24 10 demo_truth demo_preds (Some 5) = Inr demo_full_plot \<and>
   \<not> window_length demo_full_plot (plotted_days (Some 5) (int (length demo_truth) div 24) * 24) \<and>
   plot_prediction 24 demo_truth (replicate 50 1) (Some (- 1)) = Inl ValueError"
proof -
  have "\<not> window_length demo_full_plot (plotted_days (Some 5) (int (length demo_truth) div 24) * 24)"
    by (simp add: window_length_def demo_full_plot_def plotted_days_def demo_truth_def)
  moreover have "plot_prediction 24 demo_truth (replicate 50 1) (Some (- 1)) = Inl ValueError"
    by (simp add: plot_prediction_def Let_def py_floordiv_def bindE_def days_to_show_def
        plt_plot_def py_range_def py_slice_to_def demo_truth_def)
  ultimately show ?thesis
    using demo_full_plot_drawn by simp
qed
text \<open>
  Where \<open>plot_prediction_full\<close> does not draw although the request is not negative: with
  eight horizon series the loop over \<open>range(9)\<close> indexes past their list, and with less
  than a day of data the window is empty and the cubic interpolation refuses it.
\<close>

lemma plot_prediction_full_eight_series:
  "plot_prediction_full 24 10 demo_truth (replicate 8 (replicate 50 1)) (Some 5) = Inl IndexError"
  by code_simp

lemma plot_prediction_full_empty_window:
  "plot_prediction_full 24 10 (replicate 10 (0::int)) demo_preds None = Inl ValueError"
  by code_simp

end
